theory Spec2Isabelle
  imports Complex_Main
begin

section \<open>The geometry factory of libosmium (osmium/geom/factory.hpp)\<close>

text \<open>
  A shallow embedding of \<^verbatim>\<open>osmium::geometry_error\<close>, \<^verbatim>\<open>osmium::geom::IdentityProjection\<close>
  and \<^verbatim>\<open>osmium::geom::GeometryFactory\<close>.

  \<^item> The two template parameters become function parameters: the backend \<open>TGeomImpl\<close> is a
    record of operations over a backend state, the projection \<open>TProjection\<close> a record
    holding the call operator, the EPSG code and the proj string.
  \<^item> The member \<open>m_impl\<close> is mutated by every backend call; the model passes the backend
    state through explicitly and returns it, also when an exception is thrown.
  \<^item> A C++ exception is a value of the type \<open>error\<close>; a function that can throw
    returns \<open>error + 'a\<close> with \<open>Inl\<close> for the exception. The projection's call
    operator can throw; the operations of the backend are taken not to throw.
  \<^item> An iterator range \<open>[it, end)\<close> is the list of the node references it visits, in
    visiting order: \<open>cbegin()..cend()\<close> is the list itself, \<open>crbegin()..crend()\<close>
    the list that a reverse iterator visits (\<open>reverse_range\<close> below).
  \<^item> \<open>size_t\<close> counters are natural numbers: a counter counts the elements of a list
    held in memory and cannot reach \<open>2^64\<close>.
\<close>

subsection \<open>Types of other headers that the factory uses\<close>

text \<open>
  Modelled from the spec: \<^verbatim>\<open>osmium::Location\<close> (osmium/osm/location.hpp is not among the
  sources). The spec describes it as a geographic coordinate (longitude, latitude),
  comparable for equality, with an "undefined" sentinel value that compares unequal to
  any real coordinate. The accessors \<open>lon()\<close> and \<open>lat()\<close> return \<open>double\<close>; the
  factory only copies and compares these numbers, so they are modelled as rationals.
\<close>

record location =
  lon :: rat
  lat :: rat

text \<open>
  Modelled from the spec: the value of a default-constructed \<^verbatim>\<open>osmium::Location\<close>, which is
  the undefined sentinel. The spec fixes no number for it; the pair chosen here lies outside
  the range of geographic coordinates (\<open>valid\<close> below), so it differs from every real
  coordinate.
\<close>

definition undefined_location :: location where
  "undefined_location = \<lparr>lon = 214.7483647, lat = 214.7483647\<rparr>"

definition valid :: "location \<Rightarrow> bool" where
  "valid l = (- 180 \<le> lon l \<and> lon l \<le> 180 \<and> - 90 \<le> lat l \<and> lat l \<le> 90)"

text \<open>\<^verbatim>\<open>osmium::geom::Coordinates\<close> (osmium/geom/coordinates.hpp): a planar pair.\<close>

record coordinates =
  coord_x :: rat
  coord_y :: rat

text \<open>\<^verbatim>\<open>osmium::NodeRef\<close>: a node identifier and its location.\<close>

record node_ref =
  nr_ref :: int
  nr_location :: location

text \<open>\<^verbatim>\<open>osmium::Node\<close>, as far as the factory reads it.\<close>

record node =
  node_id :: int
  node_location :: location

text \<open>\<^verbatim>\<open>osmium::Way\<close>: an identifier and its \<^verbatim>\<open>WayNodeList\<close>.\<close>

record way =
  way_id :: int
  way_nodes :: "node_ref list"

text \<open>
  The subitems of an \<^verbatim>\<open>osmium::Area\<close>. The loop of \<open>create_multipolygon\<close> tests the
  item type against \<open>outer_ring\<close> and \<open>inner_ring\<close> and skips an item of any other
  type; \<open>other_item\<close> stands for those.
\<close>

datatype item =
    outer_ring "node_ref list"
  | inner_ring "node_ref list"
  | other_item

record area =
  area_id :: int
  area_items :: "item list"

subsection \<open>std::to_string on object ids\<close>

text \<open>
  \<^verbatim>\<open>osmium::object_id_type\<close> is a signed 64-bit integer; no arithmetic is done on ids,
  so they are modelled as \<open>int\<close>. \<open>std::to_string\<close> prints the decimal digits, with a
  leading minus sign for a negative number.
\<close>

definition digit_char :: "nat \<Rightarrow> char" where
  "digit_char d = ''0123456789'' ! d"

fun digits10 :: "nat \<Rightarrow> string" where
  "digits10 n = (if n < 10 then [digit_char n] else digits10 (n div 10) @ [digit_char (n mod 10)])"

definition to_string :: "int \<Rightarrow> string" where
  "to_string i = (if i < 0 then CHR ''-'' # digits10 (nat (- i)) else digits10 (nat i))"

subsection \<open>class geometry_error\<close>

record geometry_error =
  m_message :: string
  m_id :: int

text \<open>The text that the constructor and \<open>set_id\<close> both append to the message.\<close>

definition id_suffix :: "string \<Rightarrow> int \<Rightarrow> string" where
  "id_suffix object_type oid = '' ('' @ object_type @ ''_id='' @ to_string oid @ '')''"

text \<open>The constructor; \<open>object_type\<close> defaults to the empty string and the id to 0.\<close>

definition geometry_error :: "string \<Rightarrow> string \<Rightarrow> int \<Rightarrow> geometry_error" where
  "geometry_error message object_type oid =
     (if oid \<noteq> 0
      then \<lparr>m_message = message @ id_suffix object_type oid, m_id = oid\<rparr>
      else \<lparr>m_message = message, m_id = oid\<rparr>)"

text \<open>
  \<open>set_id\<close>: the message grows only under the guard \<open>m_id == 0 && id != 0\<close>; the
  assignment \<open>m_id = id\<close> stands after the \<open>if\<close> and is done in every case.
\<close>

definition set_id :: "string \<Rightarrow> int \<Rightarrow> geometry_error \<Rightarrow> geometry_error" where
  "set_id object_type oid e =
     (if m_id e = 0 \<and> oid \<noteq> 0
      then e\<lparr>m_message := m_message e @ id_suffix object_type oid\<rparr>
      else e)\<lparr>m_id := oid\<rparr>"

text \<open>
  What a call can throw: a \<open>geometry_error\<close>, which the factory's \<open>catch\<close> clauses
  catch, or an exception of any other class (with its \<open>what()\<close> text), which they do not.
\<close>

datatype error =
    Geometry_error geometry_error
  | Other_error string

text \<open>
  The handler \<^verbatim>\<open>catch (osmium::geometry_error& e) { e.set_id(object_type, id); throw; }\<close>
  applied to the outcome of the \<open>try\<close> block.
\<close>

fun catch_set_id :: "string \<Rightarrow> int \<Rightarrow> error + 'a \<Rightarrow> error + 'a" where
  "catch_set_id object_type oid (Inl (Geometry_error e)) = Inl (Geometry_error (set_id object_type oid e))"
| "catch_set_id object_type oid (Inl (Other_error w)) = Inl (Other_error w)"
| "catch_set_id object_type oid (Inr v) = Inr v"

subsection \<open>Enumerations\<close>

datatype use_nodes = unique | all_nodes

datatype direction = backward | forward

subsection \<open>The projection\<close>

text \<open>
  The template parameter \<open>TProjection\<close>: the call operator (which may throw), \<open>epsg()\<close>
  and \<open>proj_string()\<close>.
\<close>

record projection =
  project :: "location \<Rightarrow> error + coordinates"
  epsg :: int
  proj_string :: string

definition IdentityProjection :: projection where
  "IdentityProjection =
     \<lparr>project = (\<lambda>location. Inr \<lparr>coord_x = lon location, coord_y = lat location\<rparr>),
      epsg = 4326,
      proj_string = ''+proj=longlat +datum=WGS84 +no_defs''\<rparr>"

subsection \<open>The backend\<close>

text \<open>
  The template parameter \<open>TGeomImpl\<close>, with backend state \<open>'b\<close> and finished
  geometries of type \<open>'g\<close>. \<open>make_point\<close> is called from a \<open>const\<close> member function
  and returns the point; the \<open>start\<close> and \<open>add_location\<close> operations return nothing;
  the \<open>finish\<close> operations of linestring, polygon and multipolygon return the geometry.
\<close>

record ('b, 'g) geom_impl =
  impl_make_point :: "coordinates \<Rightarrow> 'g"
  impl_linestring_start :: "'b \<Rightarrow> 'b"
  impl_linestring_add_location :: "coordinates \<Rightarrow> 'b \<Rightarrow> 'b"
  impl_linestring_finish :: "nat \<Rightarrow> 'b \<Rightarrow> 'g \<times> 'b"
  impl_polygon_start :: "'b \<Rightarrow> 'b"
  impl_polygon_add_location :: "coordinates \<Rightarrow> 'b \<Rightarrow> 'b"
  impl_polygon_finish :: "nat \<Rightarrow> 'b \<Rightarrow> 'g \<times> 'b"
  impl_multipolygon_start :: "'b \<Rightarrow> 'b"
  impl_multipolygon_polygon_start :: "'b \<Rightarrow> 'b"
  impl_multipolygon_polygon_finish :: "'b \<Rightarrow> 'b"
  impl_multipolygon_outer_ring_start :: "'b \<Rightarrow> 'b"
  impl_multipolygon_outer_ring_finish :: "'b \<Rightarrow> 'b"
  impl_multipolygon_inner_ring_start :: "'b \<Rightarrow> 'b"
  impl_multipolygon_inner_ring_finish :: "'b \<Rightarrow> 'b"
  impl_multipolygon_add_location :: "coordinates \<Rightarrow> 'b \<Rightarrow> 'b"
  impl_multipolygon_finish :: "'b \<Rightarrow> 'g \<times> 'b"

text \<open>
  The recording backend: its state is the list of the calls made on it so far, oldest
  first, and a \<open>finish\<close> operation returns that list (the finishing call included) as
  the geometry. \<open>make_point\<close>, a \<open>const\<close> operation, returns its own call and leaves
  the state alone. What the factory does to a backend is read off this list.
\<close>

datatype call =
    Make_point coordinates
  | Linestring_start
  | Linestring_add_location coordinates
  | Linestring_finish nat
  | Polygon_start
  | Polygon_add_location coordinates
  | Polygon_finish nat
  | Multipolygon_start
  | Multipolygon_polygon_start
  | Multipolygon_polygon_finish
  | Multipolygon_outer_ring_start
  | Multipolygon_outer_ring_finish
  | Multipolygon_inner_ring_start
  | Multipolygon_inner_ring_finish
  | Multipolygon_add_location coordinates
  | Multipolygon_finish

definition recorder :: "(call list, call list) geom_impl" where
  "recorder =
     \<lparr>impl_make_point = (\<lambda>c. [Make_point c]),
      impl_linestring_start = (\<lambda>tr. tr @ [Linestring_start]),
      impl_linestring_add_location = (\<lambda>c tr. tr @ [Linestring_add_location c]),
      impl_linestring_finish = (\<lambda>n tr. (tr @ [Linestring_finish n], tr @ [Linestring_finish n])),
      impl_polygon_start = (\<lambda>tr. tr @ [Polygon_start]),
      impl_polygon_add_location = (\<lambda>c tr. tr @ [Polygon_add_location c]),
      impl_polygon_finish = (\<lambda>n tr. (tr @ [Polygon_finish n], tr @ [Polygon_finish n])),
      impl_multipolygon_start = (\<lambda>tr. tr @ [Multipolygon_start]),
      impl_multipolygon_polygon_start = (\<lambda>tr. tr @ [Multipolygon_polygon_start]),
      impl_multipolygon_polygon_finish = (\<lambda>tr. tr @ [Multipolygon_polygon_finish]),
      impl_multipolygon_outer_ring_start = (\<lambda>tr. tr @ [Multipolygon_outer_ring_start]),
      impl_multipolygon_outer_ring_finish = (\<lambda>tr. tr @ [Multipolygon_outer_ring_finish]),
      impl_multipolygon_inner_ring_start = (\<lambda>tr. tr @ [Multipolygon_inner_ring_start]),
      impl_multipolygon_inner_ring_finish = (\<lambda>tr. tr @ [Multipolygon_inner_ring_finish]),
      impl_multipolygon_add_location = (\<lambda>c tr. tr @ [Multipolygon_add_location c]),
      impl_multipolygon_finish = (\<lambda>tr. (tr @ [Multipolygon_finish], tr @ [Multipolygon_finish]))\<rparr>"

subsection \<open>Reverse iteration\<close>

text \<open>
  \<open>crbegin()\<close> is a \<open>std::reverse_iterator\<close> whose base is \<open>cend()\<close>, \<open>crend()\<close> one
  whose base is \<open>cbegin()\<close>. A reverse iterator with base position \<open>i\<close> dereferences to
  the element at position \<open>i - 1\<close>, and incrementing it moves the base to \<open>i - 1\<close>.
  \<open>reverse_visit xs i\<close> lists the elements visited from base position \<open>i\<close> down to
  base position 0.
\<close>

fun reverse_visit :: "'a list \<Rightarrow> nat \<Rightarrow> 'a list" where
  "reverse_visit xs 0 = []"
| "reverse_visit xs (Suc i) = xs ! i # reverse_visit xs i"

definition reverse_range :: "'a list \<Rightarrow> 'a list" where
  "reverse_range xs = reverse_visit xs (length xs)"

subsection \<open>class GeometryFactory\<close>

text \<open>
  Every function takes the two members \<open>m_impl\<close> (the operations \<open>impl\<close> and the
  backend state \<open>b\<close>) and \<open>m_projection\<close> (\<open>proj\<close>). The overloads of
  \<open>create_point\<close>, \<open>create_linestring\<close> and \<open>create_polygon\<close> get the argument type
  as a suffix.
\<close>

text \<open>
  \<open>add_points\<close>: the loop over the ring's node references; \<open>last_location\<close> starts as
  the default-constructed Location.
\<close>

fun add_points_loop ::
  "('b, 'g) geom_impl \<Rightarrow> projection \<Rightarrow> node_ref list \<Rightarrow> location \<Rightarrow> 'b \<Rightarrow> (error + unit) \<times> 'b"
where
  "add_points_loop impl proj [] last_location b = (Inr (), b)"
| "add_points_loop impl proj (node_ref # rest) last_location b =
     (if last_location \<noteq> nr_location node_ref
      then (case project proj (nr_location node_ref) of
              Inl e \<Rightarrow> (Inl e, b)
            | Inr c \<Rightarrow>
                add_points_loop impl proj rest (nr_location node_ref)
                  (impl_multipolygon_add_location impl c b))
      else add_points_loop impl proj rest last_location b)"

definition add_points ::
  "('b, 'g) geom_impl \<Rightarrow> projection \<Rightarrow> node_ref list \<Rightarrow> 'b \<Rightarrow> (error + unit) \<times> 'b"
where
  "add_points impl proj nodes b = add_points_loop impl proj nodes undefined_location b"

text \<open>Point.\<close>

definition create_point :: "('b, 'g) geom_impl \<Rightarrow> projection \<Rightarrow> location \<Rightarrow> error + 'g" where
  "create_point impl proj location =
     (case project proj location of
        Inl e \<Rightarrow> Inl e
      | Inr c \<Rightarrow> Inr (impl_make_point impl c))"

definition create_point_node :: "('b, 'g) geom_impl \<Rightarrow> projection \<Rightarrow> node \<Rightarrow> error + 'g" where
  "create_point_node impl proj node =
     catch_set_id ''node'' (node_id node) (create_point impl proj (node_location node))"

definition create_point_node_ref :: "('b, 'g) geom_impl \<Rightarrow> projection \<Rightarrow> node_ref \<Rightarrow> error + 'g" where
  "create_point_node_ref impl proj node_ref =
     catch_set_id ''node'' (nr_ref node_ref) (create_point impl proj (nr_location node_ref))"

text \<open>LineString.\<close>

definition linestring_start :: "('b, 'g) geom_impl \<Rightarrow> 'b \<Rightarrow> 'b" where
  "linestring_start impl b = impl_linestring_start impl b"

fun fill_linestring_loop ::
  "('b, 'g) geom_impl \<Rightarrow> projection \<Rightarrow> node_ref list \<Rightarrow> nat \<Rightarrow> 'b \<Rightarrow> (error + nat) \<times> 'b"
where
  "fill_linestring_loop impl proj [] num_points b = (Inr num_points, b)"
| "fill_linestring_loop impl proj (it # rest) num_points b =
     (case project proj (nr_location it) of
        Inl e \<Rightarrow> (Inl e, b)
      | Inr c \<Rightarrow>
          fill_linestring_loop impl proj rest (Suc num_points)
            (impl_linestring_add_location impl c b))"

definition fill_linestring ::
  "('b, 'g) geom_impl \<Rightarrow> projection \<Rightarrow> node_ref list \<Rightarrow> 'b \<Rightarrow> (error + nat) \<times> 'b"
where
  "fill_linestring impl proj its b = fill_linestring_loop impl proj its 0 b"

fun fill_linestring_unique_loop ::
  "('b, 'g) geom_impl \<Rightarrow> projection \<Rightarrow> node_ref list \<Rightarrow> nat \<Rightarrow> location \<Rightarrow> 'b \<Rightarrow> (error + nat) \<times> 'b"
where
  "fill_linestring_unique_loop impl proj [] num_points last_location b = (Inr num_points, b)"
| "fill_linestring_unique_loop impl proj (it # rest) num_points last_location b =
     (if last_location \<noteq> nr_location it
      then (case project proj (nr_location it) of
              Inl e \<Rightarrow> (Inl e, b)
            | Inr c \<Rightarrow>
                fill_linestring_unique_loop impl proj rest (Suc num_points) (nr_location it)
                  (impl_linestring_add_location impl c b))
      else fill_linestring_unique_loop impl proj rest num_points last_location b)"

definition fill_linestring_unique ::
  "('b, 'g) geom_impl \<Rightarrow> projection \<Rightarrow> node_ref list \<Rightarrow> 'b \<Rightarrow> (error + nat) \<times> 'b"
where
  "fill_linestring_unique impl proj its b =
     fill_linestring_unique_loop impl proj its 0 undefined_location b"

definition linestring_finish :: "('b, 'g) geom_impl \<Rightarrow> nat \<Rightarrow> 'b \<Rightarrow> 'g \<times> 'b" where
  "linestring_finish impl num_points b = impl_linestring_finish impl num_points b"

definition create_linestring ::
  "('b, 'g) geom_impl \<Rightarrow> projection \<Rightarrow> node_ref list \<Rightarrow> use_nodes \<Rightarrow> direction \<Rightarrow> 'b
     \<Rightarrow> (error + 'g) \<times> 'b"
where
  "create_linestring impl proj wnl un dir b =
     (case (if un = unique
            then (case dir of
                    forward \<Rightarrow> fill_linestring_unique impl proj wnl (linestring_start impl b)
                  | backward \<Rightarrow> fill_linestring_unique impl proj (reverse_range wnl) (linestring_start impl b))
            else (case dir of
                    forward \<Rightarrow> fill_linestring impl proj wnl (linestring_start impl b)
                  | backward \<Rightarrow> fill_linestring impl proj (reverse_range wnl) (linestring_start impl b)))
      of
        (Inl e, b') \<Rightarrow> (Inl e, b')
      | (Inr num_points, b') \<Rightarrow>
          if num_points < 2
          then (Inl (Geometry_error (geometry_error ''need at least two points for linestring'' [] 0)), b')
          else (case linestring_finish impl num_points b' of (g, b'') \<Rightarrow> (Inr g, b'')))"

definition create_linestring_way ::
  "('b, 'g) geom_impl \<Rightarrow> projection \<Rightarrow> way \<Rightarrow> use_nodes \<Rightarrow> direction \<Rightarrow> 'b \<Rightarrow> (error + 'g) \<times> 'b"
where
  "create_linestring_way impl proj w un dir b =
     (case create_linestring impl proj (way_nodes w) un dir b of
        (r, b') \<Rightarrow> (catch_set_id ''way'' (way_id w) r, b'))"

text \<open>Polygon.\<close>

definition polygon_start :: "('b, 'g) geom_impl \<Rightarrow> 'b \<Rightarrow> 'b" where
  "polygon_start impl b = impl_polygon_start impl b"

fun fill_polygon_loop ::
  "('b, 'g) geom_impl \<Rightarrow> projection \<Rightarrow> node_ref list \<Rightarrow> nat \<Rightarrow> 'b \<Rightarrow> (error + nat) \<times> 'b"
where
  "fill_polygon_loop impl proj [] num_points b = (Inr num_points, b)"
| "fill_polygon_loop impl proj (it # rest) num_points b =
     (case project proj (nr_location it) of
        Inl e \<Rightarrow> (Inl e, b)
      | Inr c \<Rightarrow>
          fill_polygon_loop impl proj rest (Suc num_points)
            (impl_polygon_add_location impl c b))"

definition fill_polygon ::
  "('b, 'g) geom_impl \<Rightarrow> projection \<Rightarrow> node_ref list \<Rightarrow> 'b \<Rightarrow> (error + nat) \<times> 'b"
where
  "fill_polygon impl proj its b = fill_polygon_loop impl proj its 0 b"

fun fill_polygon_unique_loop ::
  "('b, 'g) geom_impl \<Rightarrow> projection \<Rightarrow> node_ref list \<Rightarrow> nat \<Rightarrow> location \<Rightarrow> 'b \<Rightarrow> (error + nat) \<times> 'b"
where
  "fill_polygon_unique_loop impl proj [] num_points last_location b = (Inr num_points, b)"
| "fill_polygon_unique_loop impl proj (it # rest) num_points last_location b =
     (if last_location \<noteq> nr_location it
      then (case project proj (nr_location it) of
              Inl e \<Rightarrow> (Inl e, b)
            | Inr c \<Rightarrow>
                fill_polygon_unique_loop impl proj rest (Suc num_points) (nr_location it)
                  (impl_polygon_add_location impl c b))
      else fill_polygon_unique_loop impl proj rest num_points last_location b)"

definition fill_polygon_unique ::
  "('b, 'g) geom_impl \<Rightarrow> projection \<Rightarrow> node_ref list \<Rightarrow> 'b \<Rightarrow> (error + nat) \<times> 'b"
where
  "fill_polygon_unique impl proj its b =
     fill_polygon_unique_loop impl proj its 0 undefined_location b"

definition polygon_finish :: "('b, 'g) geom_impl \<Rightarrow> nat \<Rightarrow> 'b \<Rightarrow> 'g \<times> 'b" where
  "polygon_finish impl num_points b = impl_polygon_finish impl num_points b"

definition create_polygon ::
  "('b, 'g) geom_impl \<Rightarrow> projection \<Rightarrow> node_ref list \<Rightarrow> use_nodes \<Rightarrow> direction \<Rightarrow> 'b
     \<Rightarrow> (error + 'g) \<times> 'b"
where
  "create_polygon impl proj wnl un dir b =
     (case (if un = unique
            then (case dir of
                    forward \<Rightarrow> fill_polygon_unique impl proj wnl (polygon_start impl b)
                  | backward \<Rightarrow> fill_polygon_unique impl proj (reverse_range wnl) (polygon_start impl b))
            else (case dir of
                    forward \<Rightarrow> fill_polygon impl proj wnl (polygon_start impl b)
                  | backward \<Rightarrow> fill_polygon impl proj (reverse_range wnl) (polygon_start impl b)))
      of
        (Inl e, b') \<Rightarrow> (Inl e, b')
      | (Inr num_points, b') \<Rightarrow>
          if num_points < 4
          then (Inl (Geometry_error (geometry_error ''need at least four points for polygon'' [] 0)), b')
          else (case polygon_finish impl num_points b' of (g, b'') \<Rightarrow> (Inr g, b'')))"

definition create_polygon_way ::
  "('b, 'g) geom_impl \<Rightarrow> projection \<Rightarrow> way \<Rightarrow> use_nodes \<Rightarrow> direction \<Rightarrow> 'b \<Rightarrow> (error + 'g) \<times> 'b"
where
  "create_polygon_way impl proj w un dir b =
     (case create_polygon impl proj (way_nodes w) un dir b of
        (r, b') \<Rightarrow> (catch_set_id ''way'' (way_id w) r, b'))"

text \<open>
  MultiPolygon. The loop over the area's items carries \<open>num_polygons\<close> and \<open>num_rings\<close>
  and returns them when it reaches the end.
\<close>

fun multipolygon_loop ::
  "('b, 'g) geom_impl \<Rightarrow> projection \<Rightarrow> item list \<Rightarrow> nat \<Rightarrow> nat \<Rightarrow> 'b \<Rightarrow> (error + nat \<times> nat) \<times> 'b"
where
  "multipolygon_loop impl proj [] num_polygons num_rings b = (Inr (num_polygons, num_rings), b)"
| "multipolygon_loop impl proj (outer_ring ring # rest) num_polygons num_rings b =
     (case add_points impl proj ring
             (impl_multipolygon_outer_ring_start impl
               (impl_multipolygon_polygon_start impl
                 (if num_polygons > 0 then impl_multipolygon_polygon_finish impl b else b)))
      of
        (Inl e, b') \<Rightarrow> (Inl e, b')
      | (Inr _, b') \<Rightarrow>
          multipolygon_loop impl proj rest (Suc num_polygons) (Suc num_rings)
            (impl_multipolygon_outer_ring_finish impl b'))"
| "multipolygon_loop impl proj (inner_ring ring # rest) num_polygons num_rings b =
     (case add_points impl proj ring (impl_multipolygon_inner_ring_start impl b) of
        (Inl e, b') \<Rightarrow> (Inl e, b')
      | (Inr _, b') \<Rightarrow>
          multipolygon_loop impl proj rest num_polygons (Suc num_rings)
            (impl_multipolygon_inner_ring_finish impl b'))"
| "multipolygon_loop impl proj (other_item # rest) num_polygons num_rings b =
     multipolygon_loop impl proj rest num_polygons num_rings b"

text \<open>The body of the \<open>try\<close> block of \<open>create_multipolygon\<close>.\<close>

definition create_multipolygon_try ::
  "('b, 'g) geom_impl \<Rightarrow> projection \<Rightarrow> area \<Rightarrow> 'b \<Rightarrow> (error + 'g) \<times> 'b"
where
  "create_multipolygon_try impl proj a b =
     (case multipolygon_loop impl proj (area_items a) 0 0 (impl_multipolygon_start impl b) of
        (Inl e, b') \<Rightarrow> (Inl e, b')
      | (Inr (num_polygons, num_rings), b') \<Rightarrow>
          if num_rings = 0
          then (Inl (Geometry_error (geometry_error ''invalid area'' [] 0)), b')
          else (case impl_multipolygon_finish impl (impl_multipolygon_polygon_finish impl b') of
                  (g, b'') \<Rightarrow> (Inr g, b'')))"

definition create_multipolygon ::
  "('b, 'g) geom_impl \<Rightarrow> projection \<Rightarrow> area \<Rightarrow> 'b \<Rightarrow> (error + 'g) \<times> 'b"
where
  "create_multipolygon impl proj a b =
     (case create_multipolygon_try impl proj a b of
        (r, b') \<Rightarrow> (catch_set_id ''area'' (area_id a) r, b'))"

subsection \<open>Replaying recorded calls on a backend\<close>

text \<open>
  What a recorded call does to the state of a backend. \<open>make_point\<close> is a \<open>const\<close>
  member function and leaves the state as it is.
\<close>

fun apply_call :: "('b, 'g) geom_impl \<Rightarrow> call \<Rightarrow> 'b \<Rightarrow> 'b" where
  "apply_call impl (Make_point c) b = b"
| "apply_call impl Linestring_start b = impl_linestring_start impl b"
| "apply_call impl (Linestring_add_location c) b = impl_linestring_add_location impl c b"
| "apply_call impl (Linestring_finish n) b = snd (impl_linestring_finish impl n b)"
| "apply_call impl Polygon_start b = impl_polygon_start impl b"
| "apply_call impl (Polygon_add_location c) b = impl_polygon_add_location impl c b"
| "apply_call impl (Polygon_finish n) b = snd (impl_polygon_finish impl n b)"
| "apply_call impl Multipolygon_start b = impl_multipolygon_start impl b"
| "apply_call impl Multipolygon_polygon_start b = impl_multipolygon_polygon_start impl b"
| "apply_call impl Multipolygon_polygon_finish b = impl_multipolygon_polygon_finish impl b"
| "apply_call impl Multipolygon_outer_ring_start b = impl_multipolygon_outer_ring_start impl b"
| "apply_call impl Multipolygon_outer_ring_finish b = impl_multipolygon_outer_ring_finish impl b"
| "apply_call impl Multipolygon_inner_ring_start b = impl_multipolygon_inner_ring_start impl b"
| "apply_call impl Multipolygon_inner_ring_finish b = impl_multipolygon_inner_ring_finish impl b"
| "apply_call impl (Multipolygon_add_location c) b = impl_multipolygon_add_location impl c b"
| "apply_call impl Multipolygon_finish b = snd (impl_multipolygon_finish impl b)"

definition replay :: "('b, 'g) geom_impl \<Rightarrow> call list \<Rightarrow> 'b \<Rightarrow> 'b" where
  "replay impl calls b = foldl (\<lambda>s c. apply_call impl c s) b calls"

text \<open>The exception of an outcome, if any: the outcome without the backend's geometry.\<close>

definition outcome :: "error + 'a \<Rightarrow> error option" where
  "outcome r = (case r of Inl e \<Rightarrow> Some e | Inr v \<Rightarrow> None)"

subsection \<open>Reading a recorded call list\<close>

text \<open>The points that a call list adds to a linestring, polygon or ring, in order.\<close>

fun point_of :: "call \<Rightarrow> coordinates list" where
  "point_of (Linestring_add_location c) = [c]"
| "point_of (Polygon_add_location c) = [c]"
| "point_of (Multipolygon_add_location c) = [c]"
| "point_of _ = []"

definition emitted_points :: "call list \<Rightarrow> coordinates list" where
  "emitted_points tr = concat (map point_of tr)"

text \<open>The rings among the items of an area, and the outer rings among them.\<close>

fun is_ring :: "item \<Rightarrow> bool" where
  "is_ring (outer_ring ring) = True"
| "is_ring (inner_ring ring) = True"
| "is_ring other_item = False"

fun is_outer_ring :: "item \<Rightarrow> bool" where
  "is_outer_ring (outer_ring ring) = True"
| "is_outer_ring (inner_ring ring) = False"
| "is_outer_ring other_item = False"

definition ring_count :: "item list \<Rightarrow> nat" where
  "ring_count items = length (filter is_ring items)"

definition outer_ring_count :: "item list \<Rightarrow> nat" where
  "outer_ring_count items = length (filter is_outer_ring items)"

text \<open>
  Every inner ring of the item list has an outer ring somewhere before it; the flag says
  whether an outer ring came before the list.
\<close>

fun inner_rings_preceded :: "bool \<Rightarrow> item list \<Rightarrow> bool" where
  "inner_rings_preceded seen_outer [] = True"
| "inner_rings_preceded seen_outer (outer_ring ring # rest) = inner_rings_preceded True rest"
| "inner_rings_preceded seen_outer (inner_ring ring # rest) =
     (seen_outer \<and> inner_rings_preceded seen_outer rest)"
| "inner_rings_preceded seen_outer (other_item # rest) = inner_rings_preceded seen_outer rest"

text \<open>
  The multipolygon protocol of a backend as an automaton over calls: after
  \<open>multipolygon_start\<close> come polygons; a polygon is \<open>polygon_start\<close>, one outer ring
  (start, points, finish), any number of inner rings (start, points, finish) and
  \<open>polygon_finish\<close>; \<open>multipolygon_finish\<close> ends the build. Every other call is
  rejected.
\<close>

datatype build_state =
    Not_started
  | In_multipolygon
  | Polygon_opened
  | In_outer_ring
  | In_polygon
  | In_inner_ring
  | Finished

fun protocol_step :: "build_state \<Rightarrow> call \<Rightarrow> build_state option" where
  "protocol_step Not_started Multipolygon_start = Some In_multipolygon"
| "protocol_step In_multipolygon Multipolygon_polygon_start = Some Polygon_opened"
| "protocol_step Polygon_opened Multipolygon_outer_ring_start = Some In_outer_ring"
| "protocol_step In_outer_ring (Multipolygon_add_location c) = Some In_outer_ring"
| "protocol_step In_outer_ring Multipolygon_outer_ring_finish = Some In_polygon"
| "protocol_step In_polygon Multipolygon_inner_ring_start = Some In_inner_ring"
| "protocol_step In_inner_ring (Multipolygon_add_location c) = Some In_inner_ring"
| "protocol_step In_inner_ring Multipolygon_inner_ring_finish = Some In_polygon"
| "protocol_step In_polygon Multipolygon_polygon_finish = Some In_multipolygon"
| "protocol_step In_multipolygon Multipolygon_finish = Some Finished"
| "protocol_step s c = None"

fun protocol_run :: "build_state \<Rightarrow> call list \<Rightarrow> build_state option" where
  "protocol_run s [] = Some s"
| "protocol_run s (c # cs) =
     (case protocol_step s c of None \<Rightarrow> None | Some s' \<Rightarrow> protocol_run s' cs)"

definition follows_protocol :: "call list \<Rightarrow> bool" where
  "follows_protocol tr = (protocol_run Not_started tr = Some Finished)"

subsection \<open>Inputs of the examples\<close>

text \<open>A projection whose call operator throws the given exception at every location.\<close>

definition throwing_projection :: "error \<Rightarrow> projection" where
  "throwing_projection err = \<lparr>project = (\<lambda>location. Inl err), epsg = 0, proj_string = []\<rparr>"

text \<open>
  The area of the spec's example: id 7, an outer ring through (0,0), (0,0), (1,0), (1,1),
  (0,0) and an inner ring through (0.2,0.2), (0.3,0.2), (0.3,0.3), (0.2,0.2).
\<close>

definition example_area :: area where
  "example_area =
     \<lparr>area_id = 7,
      area_items =
        [outer_ring
           [\<lparr>nr_ref = 1, nr_location = \<lparr>lon = 0, lat = 0\<rparr>\<rparr>,
            \<lparr>nr_ref = 2, nr_location = \<lparr>lon = 0, lat = 0\<rparr>\<rparr>,
            \<lparr>nr_ref = 3, nr_location = \<lparr>lon = 1, lat = 0\<rparr>\<rparr>,
            \<lparr>nr_ref = 4, nr_location = \<lparr>lon = 1, lat = 1\<rparr>\<rparr>,
            \<lparr>nr_ref = 1, nr_location = \<lparr>lon = 0, lat = 0\<rparr>\<rparr>],
         inner_ring
           [\<lparr>nr_ref = 5, nr_location = \<lparr>lon = 0.2, lat = 0.2\<rparr>\<rparr>,
            \<lparr>nr_ref = 6, nr_location = \<lparr>lon = 0.3, lat = 0.2\<rparr>\<rparr>,
            \<lparr>nr_ref = 7, nr_location = \<lparr>lon = 0.3, lat = 0.3\<rparr>\<rparr>,
            \<lparr>nr_ref = 5, nr_location = \<lparr>lon = 0.2, lat = 0.2\<rparr>\<rparr>]]\<rparr>"

subsection \<open>The dedup policy as a list function\<close>

text \<open>
  The Locations that a deduplicating traversal lets through, stated on lists and apart
  from the loops: a Location is kept when it differs from \<open>last_location\<close>, and then
  becomes \<open>last_location\<close>. The theorems say which points the factory emits by
  this function (lemma \<open>emitted_from_remdups_adj\<close> gives it in terms of the library's
  \<open>remdups_adj\<close>).
\<close>

fun emitted_from :: "location \<Rightarrow> location list \<Rightarrow> location list" where
  "emitted_from last_location [] = []"
| "emitted_from last_location (l # ls) =
     (if last_location \<noteq> l then l # emitted_from l ls else emitted_from last_location ls)"

subsection \<open>Auxiliary functions of the proofs\<close>

text \<open>
  The calls that the loop of \<open>create_multipolygon\<close> makes on the items under a projection
  that never throws; the flag says whether \<open>num_polygons > 0\<close>.
\<close>

definition ring_calls :: "(location \<Rightarrow> coordinates) \<Rightarrow> node_ref list \<Rightarrow> call list" where
  "ring_calls p ring =
     map (\<lambda>l. Multipolygon_add_location (p l))
       (emitted_from undefined_location (map nr_location ring))"

fun loop_calls :: "(location \<Rightarrow> coordinates) \<Rightarrow> item list \<Rightarrow> bool \<Rightarrow> call list" where
  "loop_calls p [] polygon_open = []"
| "loop_calls p (outer_ring ring # rest) polygon_open =
     (if polygon_open then [Multipolygon_polygon_finish] else [])
     @ [Multipolygon_polygon_start, Multipolygon_outer_ring_start]
     @ ring_calls p ring
     @ [Multipolygon_outer_ring_finish]
     @ loop_calls p rest True"
| "loop_calls p (inner_ring ring # rest) polygon_open =
     [Multipolygon_inner_ring_start] @ ring_calls p ring @ [Multipolygon_inner_ring_finish]
     @ loop_calls p rest polygon_open"
| "loop_calls p (other_item # rest) polygon_open = loop_calls p rest polygon_open"

section \<open>Lemmas\<close>

subsection \<open>Strings of ids, the sentinel, the identity projection\<close>

lemma to_string_examples:
  "to_string 5 = ''5''" "to_string 7 = ''7''" "to_string 17 = ''17''" "to_string 123 = ''123''"
  by (simp_all add: to_string_def digit_char_def)

lemma undefined_location_not_valid: "valid l \<Longrightarrow> l \<noteq> undefined_location"
  by (auto simp: valid_def undefined_location_def)

lemma identity_total:
  "\<forall>l. project IdentityProjection l = Inr \<lparr>coord_x = lon l, coord_y = lat l\<rparr>"
  by (simp add: IdentityProjection_def)

lemma set_id_twice: "set_id object_type oid (set_id object_type oid e) = set_id object_type oid e"
  by (simp add: set_id_def)

subsection \<open>Reverse iteration visits the reversed list\<close>

lemma reverse_visit_take: "i \<le> length xs \<Longrightarrow> reverse_visit xs i = rev (take i xs)"
  by (induction i) (simp_all add: take_Suc_conv_app_nth)

lemma reverse_range_rev [simp]: "reverse_range xs = rev xs"
  by (simp add: reverse_range_def reverse_visit_take)

subsection \<open>The recording backend\<close>

lemma recorder_simps [simp]:
  "impl_make_point recorder c = [Make_point c]"
  "impl_linestring_start recorder tr = tr @ [Linestring_start]"
  "impl_linestring_add_location recorder c tr = tr @ [Linestring_add_location c]"
  "impl_linestring_finish recorder n tr = (tr @ [Linestring_finish n], tr @ [Linestring_finish n])"
  "impl_polygon_start recorder tr = tr @ [Polygon_start]"
  "impl_polygon_add_location recorder c tr = tr @ [Polygon_add_location c]"
  "impl_polygon_finish recorder n tr = (tr @ [Polygon_finish n], tr @ [Polygon_finish n])"
  "impl_multipolygon_start recorder tr = tr @ [Multipolygon_start]"
  "impl_multipolygon_polygon_start recorder tr = tr @ [Multipolygon_polygon_start]"
  "impl_multipolygon_polygon_finish recorder tr = tr @ [Multipolygon_polygon_finish]"
  "impl_multipolygon_outer_ring_start recorder tr = tr @ [Multipolygon_outer_ring_start]"
  "impl_multipolygon_outer_ring_finish recorder tr = tr @ [Multipolygon_outer_ring_finish]"
  "impl_multipolygon_inner_ring_start recorder tr = tr @ [Multipolygon_inner_ring_start]"
  "impl_multipolygon_inner_ring_finish recorder tr = tr @ [Multipolygon_inner_ring_finish]"
  "impl_multipolygon_add_location recorder c tr = tr @ [Multipolygon_add_location c]"
  "impl_multipolygon_finish recorder tr = (tr @ [Multipolygon_finish], tr @ [Multipolygon_finish])"
  by (simp_all add: recorder_def)

lemma emitted_points_simps [simp]:
  "emitted_points [] = []"
  "emitted_points (c # tr) = point_of c @ emitted_points tr"
  "emitted_points (tr @ tr') = emitted_points tr @ emitted_points tr'"
  by (simp_all add: emitted_points_def)

lemma emitted_points_map [simp]:
  "emitted_points (map (\<lambda>l. Linestring_add_location (f l)) ls) = map f ls"
  "emitted_points (map (\<lambda>l. Polygon_add_location (f l)) ls) = map f ls"
  "emitted_points (map (\<lambda>l. Multipolygon_add_location (f l)) ls) = map f ls"
  by (induction ls) simp_all

lemma emitted_points_map_add [simp]:
  "emitted_points (map Linestring_add_location cs) = cs"
  "emitted_points (map Polygon_add_location cs) = cs"
  "emitted_points (map Multipolygon_add_location cs) = cs"
  by (induction cs) simp_all

lemma ring_count_simps [simp]:
  "ring_count [] = 0"
  "ring_count (outer_ring r # rest) = Suc (ring_count rest)"
  "ring_count (inner_ring r # rest) = Suc (ring_count rest)"
  "ring_count (other_item # rest) = ring_count rest"
  by (simp_all add: ring_count_def)

lemma outer_ring_count_simps [simp]:
  "outer_ring_count [] = 0"
  "outer_ring_count (outer_ring r # rest) = Suc (outer_ring_count rest)"
  "outer_ring_count (inner_ring r # rest) = outer_ring_count rest"
  "outer_ring_count (other_item # rest) = outer_ring_count rest"
  by (simp_all add: outer_ring_count_def)

subsection \<open>Deduplication as a list function\<close>

text \<open>
  \<open>emitted_from\<close> is the library's \<open>remdups_adj\<close> run on the list with \<open>last_location\<close>
  put in front, without that first element.
\<close>

lemma emitted_from_remdups_adj: "emitted_from a ls = tl (remdups_adj (a # ls))"
proof (induction ls arbitrary: a)
  case Nil
  show ?case by simp
next
  case (Cons l ls)
  have "remdups_adj (l # ls) = l # tl (remdups_adj (l # ls))"
    by (cases ls) auto
  then show ?case using Cons by simp
qed

lemma emitted_from_append:
  "emitted_from a (xs @ ys) = emitted_from a xs @ emitted_from (last (a # xs)) ys"
  by (induction xs arbitrary: a) auto

lemma emitted_from_same:
  "\<forall>l\<in>set ls. l = a \<Longrightarrow> emitted_from a (ls @ rest) = emitted_from a rest"
  by (induction ls) auto

lemma emitted_from_run:
  assumes "run \<noteq> []" "\<forall>l\<in>set run. l = loc" "a \<noteq> loc"
  shows "emitted_from a (run @ post) = loc # emitted_from loc post"
proof (cases run)
  case Nil
  with assms show ?thesis by simp
next
  case (Cons l ls)
  with assms have "l = loc" "\<forall>l\<in>set ls. l = loc" by auto
  with Cons assms(3) show ?thesis by (simp add: emitted_from_same)
qed

lemma emitted_from_pre_run_post:
  assumes "run \<noteq> []" "\<forall>l\<in>set run. l = loc" "last (a # pre) \<noteq> loc"
  shows "emitted_from a (pre @ run @ post) = emitted_from a pre @ [loc] @ emitted_from loc post"
  using emitted_from_run [OF assms(1,2), of "last (a # pre)" post] assms(3)
  by (simp add: emitted_from_append)

lemma map_location_run:
  "\<forall>it\<in>set run. nr_location it = loc \<Longrightarrow> map nr_location run = replicate (length run) loc"
  by (induction run) auto

subsection \<open>The loops on the recording backend, under a projection that never throws\<close>

lemma fill_linestring_loop_recorder:
  assumes "\<forall>l. project proj l = Inr (p l)"
  shows "fill_linestring_loop recorder proj its n tr =
     (Inr (n + length its), tr @ map (\<lambda>it. Linestring_add_location (p (nr_location it))) its)"
  using assms by (induction its arbitrary: n tr) simp_all

lemma fill_polygon_loop_recorder:
  assumes "\<forall>l. project proj l = Inr (p l)"
  shows "fill_polygon_loop recorder proj its n tr =
     (Inr (n + length its), tr @ map (\<lambda>it. Polygon_add_location (p (nr_location it))) its)"
  using assms by (induction its arbitrary: n tr) simp_all

lemma fill_linestring_unique_loop_recorder:
  assumes "\<forall>l. project proj l = Inr (p l)"
  shows "fill_linestring_unique_loop recorder proj its n last_location tr =
     (Inr (n + length (emitted_from last_location (map nr_location its))),
      tr @ map (\<lambda>l. Linestring_add_location (p l))
             (emitted_from last_location (map nr_location its)))"
  using assms by (induction its arbitrary: n last_location tr) simp_all

lemma fill_polygon_unique_loop_recorder:
  assumes "\<forall>l. project proj l = Inr (p l)"
  shows "fill_polygon_unique_loop recorder proj its n last_location tr =
     (Inr (n + length (emitted_from last_location (map nr_location its))),
      tr @ map (\<lambda>l. Polygon_add_location (p l))
             (emitted_from last_location (map nr_location its)))"
  using assms by (induction its arbitrary: n last_location tr) simp_all

lemma add_points_loop_recorder:
  assumes "\<forall>l. project proj l = Inr (p l)"
  shows "add_points_loop recorder proj its last_location tr =
     (Inr (), tr @ map (\<lambda>l. Multipolygon_add_location (p l))
                     (emitted_from last_location (map nr_location its)))"
  using assms by (induction its arbitrary: last_location tr) simp_all

lemma add_points_recorder:
  assumes "\<forall>l. project proj l = Inr (p l)"
  shows "add_points recorder proj ring tr = (Inr (), tr @ ring_calls p ring)"
  by (simp add: add_points_def ring_calls_def add_points_loop_recorder [OF assms])

text \<open>
  Whatever the projection does, \<open>add_points\<close> and the loop of \<open>fill_linestring_unique\<close>
  pass on the same points.
\<close>

lemma add_points_loop_like_unique:
  "emitted_points tr = emitted_points tr' \<Longrightarrow>
   emitted_points (snd (add_points_loop recorder proj its a tr))
     = emitted_points (snd (fill_linestring_unique_loop recorder proj its n a tr'))"
proof (induction its arbitrary: n a tr tr')
  case Nil
  then show ?case by simp
next
  case (Cons it rest)
  show ?case
  proof (cases "a = nr_location it")
    case True
    then show ?thesis using Cons.IH [OF Cons.prems] by simp
  next
    case False
    show ?thesis
    proof (cases "project proj (nr_location it)")
      case (Inl e)
      then show ?thesis using False Cons.prems by simp
    next
      case (Inr c)
      have "emitted_points (tr @ [Multipolygon_add_location c])
              = emitted_points (tr' @ [Linestring_add_location c])"
        using Cons.prems by simp
      from Cons.IH [OF this] show ?thesis using False Inr by simp
    qed
  qed
qed

subsection \<open>The points of create_linestring and create_polygon\<close>

lemma create_linestring_points:
  assumes "\<forall>l. project proj l = Inr (p l)"
  shows "emitted_points (snd (create_linestring recorder proj wnl un dir [])) =
           map p (case un of
                    unique \<Rightarrow> emitted_from undefined_location
                                 (map nr_location (case dir of forward \<Rightarrow> wnl | backward \<Rightarrow> rev wnl))
                  | all_nodes \<Rightarrow> map nr_location (case dir of forward \<Rightarrow> wnl | backward \<Rightarrow> rev wnl))"
proof -
  note loops = fill_linestring_unique_loop_recorder [OF assms] fill_linestring_loop_recorder [OF assms]
  show ?thesis
    by (cases un; cases dir)
       (simp_all add: create_linestring_def fill_linestring_unique_def fill_linestring_def
          linestring_start_def linestring_finish_def loops o_def rev_map)
qed

lemma create_polygon_points:
  assumes "\<forall>l. project proj l = Inr (p l)"
  shows "emitted_points (snd (create_polygon recorder proj wnl un dir [])) =
           map p (case un of
                    unique \<Rightarrow> emitted_from undefined_location
                                 (map nr_location (case dir of forward \<Rightarrow> wnl | backward \<Rightarrow> rev wnl))
                  | all_nodes \<Rightarrow> map nr_location (case dir of forward \<Rightarrow> wnl | backward \<Rightarrow> rev wnl))"
proof -
  note loops = fill_polygon_unique_loop_recorder [OF assms] fill_polygon_loop_recorder [OF assms]
  show ?thesis
    by (cases un; cases dir)
       (simp_all add: create_polygon_def fill_polygon_unique_def fill_polygon_def
          polygon_start_def polygon_finish_def loops o_def rev_map)
qed

subsection \<open>The calls of create_multipolygon\<close>

lemma multipolygon_loop_recorder:
  assumes "\<forall>l. project proj l = Inr (p l)"
  shows "multipolygon_loop recorder proj items np nr tr =
           (Inr (np + outer_ring_count items, nr + ring_count items),
            tr @ loop_calls p items (np > 0))"
proof (induction items arbitrary: np nr tr)
  case Nil
  show ?case by simp
next
  case (Cons it rest)
  show ?case
    by (cases it) (simp_all add: Cons add_points_recorder [OF assms])
qed

lemma loop_calls_no_rings: "ring_count items = 0 \<Longrightarrow> loop_calls p items polygon_open = []"
  by (induction p items polygon_open rule: loop_calls.induct) simp_all

lemma loop_calls_no_outer:
  "outer_ring_count items = 0 \<Longrightarrow>
     Multipolygon_polygon_start \<notin> set (loop_calls p items polygon_open)
     \<and> Multipolygon_polygon_finish \<notin> set (loop_calls p items polygon_open)"
  by (induction p items polygon_open rule: loop_calls.induct) (auto simp: ring_calls_def)

lemma create_multipolygon_try_recorder:
  assumes "\<forall>l. project proj l = Inr (p l)"
  shows "create_multipolygon_try recorder proj a tr =
     (if ring_count (area_items a) = 0
      then (Inl (Geometry_error \<lparr>m_message = ''invalid area'', m_id = 0\<rparr>), tr @ [Multipolygon_start])
      else (Inr (tr @ [Multipolygon_start] @ loop_calls p (area_items a) False
                  @ [Multipolygon_polygon_finish, Multipolygon_finish]),
            tr @ [Multipolygon_start] @ loop_calls p (area_items a) False
               @ [Multipolygon_polygon_finish, Multipolygon_finish]))"
  by (simp add: create_multipolygon_try_def multipolygon_loop_recorder [OF assms]
        geometry_error_def loop_calls_no_rings)

lemma create_multipolygon_recorder:
  assumes "\<forall>l. project proj l = Inr (p l)"
  shows "create_multipolygon recorder proj a tr =
     (if ring_count (area_items a) = 0
      then (Inl (Geometry_error
                  (set_id ''area'' (area_id a) \<lparr>m_message = ''invalid area'', m_id = 0\<rparr>)),
            tr @ [Multipolygon_start])
      else (Inr (tr @ [Multipolygon_start] @ loop_calls p (area_items a) False
                  @ [Multipolygon_polygon_finish, Multipolygon_finish]),
            tr @ [Multipolygon_start] @ loop_calls p (area_items a) False
               @ [Multipolygon_polygon_finish, Multipolygon_finish]))"
  by (simp add: create_multipolygon_def create_multipolygon_try_recorder [OF assms])

subsection \<open>The protocol automaton on the calls of the loop\<close>

lemma protocol_run_append:
  "protocol_run s (xs @ ys) =
     (case protocol_run s xs of None \<Rightarrow> None | Some s' \<Rightarrow> protocol_run s' ys)"
  by (induction xs arbitrary: s) (simp_all split: option.splits)

lemma protocol_run_ring_calls:
  "protocol_run In_outer_ring (ring_calls p ring) = Some In_outer_ring"
  "protocol_run In_inner_ring (ring_calls p ring) = Some In_inner_ring"
proof -
  have "protocol_run In_outer_ring (map (\<lambda>l. Multipolygon_add_location (p l)) ls) = Some In_outer_ring"
       "protocol_run In_inner_ring (map (\<lambda>l. Multipolygon_add_location (p l)) ls) = Some In_inner_ring"
    for ls
    by (induction ls) simp_all
  then show "protocol_run In_outer_ring (ring_calls p ring) = Some In_outer_ring"
    and "protocol_run In_inner_ring (ring_calls p ring) = Some In_inner_ring"
    by (simp_all add: ring_calls_def)
qed

lemma loop_calls_protocol:
  "inner_rings_preceded polygon_open items \<Longrightarrow>
   protocol_run (if polygon_open then In_polygon else In_multipolygon)
       (loop_calls p items polygon_open)
     = Some (if polygon_open \<or> outer_ring_count items > 0 then In_polygon else In_multipolygon)"
  by (induction p items polygon_open rule: loop_calls.induct)
     (auto simp: protocol_run_append protocol_run_ring_calls)

lemma count_list_ring_calls [simp]:
  "count_list (ring_calls p ring) Multipolygon_polygon_start = 0"
  "count_list (ring_calls p ring) Multipolygon_polygon_finish = 0"
  "count_list (ring_calls p ring) Multipolygon_outer_ring_start = 0"
  "count_list (ring_calls p ring) Multipolygon_outer_ring_finish = 0"
  "count_list (ring_calls p ring) Multipolygon_inner_ring_start = 0"
  "count_list (ring_calls p ring) Multipolygon_inner_ring_finish = 0"
  by (auto simp: ring_calls_def count_list_0_iff)

lemma loop_calls_counts:
  "count_list (loop_calls p items polygon_open) Multipolygon_polygon_start = outer_ring_count items"
  "count_list (loop_calls p items polygon_open) Multipolygon_polygon_finish
     + (if polygon_open \<or> outer_ring_count items > 0 then 1 else 0)
     = outer_ring_count items + (if polygon_open then 1 else 0)"
  "count_list (loop_calls p items polygon_open) Multipolygon_outer_ring_start = outer_ring_count items"
  "count_list (loop_calls p items polygon_open) Multipolygon_outer_ring_finish = outer_ring_count items"
  "count_list (loop_calls p items polygon_open) Multipolygon_inner_ring_start + outer_ring_count items
     = ring_count items"
  "count_list (loop_calls p items polygon_open) Multipolygon_inner_ring_finish + outer_ring_count items
     = ring_count items"
  by (induction p items polygon_open rule: loop_calls.induct) simp_all

lemma preceded_outer_ring_count:
  "inner_rings_preceded seen items \<Longrightarrow> 0 < ring_count items \<Longrightarrow> \<not> seen
     \<Longrightarrow> 0 < outer_ring_count items"
  by (induction seen items rule: inner_rings_preceded.induct) simp_all

subsection \<open>Every backend sees the calls that the recording backend lists\<close>

text \<open>
  For any backend and any projection, a function of the factory throws what it throws on
  the recording backend, and leaves the backend in the state that replaying the recorded
  calls gives.
\<close>

lemma replay_simps [simp]:
  "replay impl [] b = b"
  "replay impl (c # cs) b = replay impl cs (apply_call impl c b)"
  "replay impl (tr @ tr') b = replay impl tr' (replay impl tr b)"
  by (simp_all add: replay_def)

lemma outcome_simps [simp]:
  "outcome (Inl e) = Some e" "outcome (Inr v) = None"
  by (simp_all add: outcome_def)

lemma fill_linestring_loop_replay:
  "replay impl tr b0 = b \<Longrightarrow>
   fill_linestring_loop impl proj its n b =
     (fst (fill_linestring_loop recorder proj its n tr),
      replay impl (snd (fill_linestring_loop recorder proj its n tr)) b0)"
  by (induction its arbitrary: n b tr) (simp_all split: sum.splits)

lemma fill_polygon_loop_replay:
  "replay impl tr b0 = b \<Longrightarrow>
   fill_polygon_loop impl proj its n b =
     (fst (fill_polygon_loop recorder proj its n tr),
      replay impl (snd (fill_polygon_loop recorder proj its n tr)) b0)"
  by (induction its arbitrary: n b tr) (simp_all split: sum.splits)

lemma fill_linestring_unique_loop_replay:
  "replay impl tr b0 = b \<Longrightarrow>
   fill_linestring_unique_loop impl proj its n a b =
     (fst (fill_linestring_unique_loop recorder proj its n a tr),
      replay impl (snd (fill_linestring_unique_loop recorder proj its n a tr)) b0)"
  by (induction its arbitrary: n a b tr) (simp_all split: sum.splits)

lemma fill_polygon_unique_loop_replay:
  "replay impl tr b0 = b \<Longrightarrow>
   fill_polygon_unique_loop impl proj its n a b =
     (fst (fill_polygon_unique_loop recorder proj its n a tr),
      replay impl (snd (fill_polygon_unique_loop recorder proj its n a tr)) b0)"
  by (induction its arbitrary: n a b tr) (simp_all split: sum.splits)

lemma add_points_loop_replay:
  "replay impl tr b0 = b \<Longrightarrow>
   add_points_loop impl proj its a b =
     (fst (add_points_loop recorder proj its a tr),
      replay impl (snd (add_points_loop recorder proj its a tr)) b0)"
  by (induction its arbitrary: a b tr) (simp_all split: sum.splits)

lemma add_points_replay:
  "replay impl tr b0 = b \<Longrightarrow>
   add_points impl proj ring b =
     (fst (add_points recorder proj ring tr), replay impl (snd (add_points recorder proj ring tr)) b0)"
  unfolding add_points_def by (rule add_points_loop_replay)

lemma multipolygon_loop_replay:
  "replay impl tr b0 = b \<Longrightarrow>
   multipolygon_loop impl proj items np nr b =
     (fst (multipolygon_loop recorder proj items np nr tr),
      replay impl (snd (multipolygon_loop recorder proj items np nr tr)) b0)"
proof (induction items arbitrary: np nr b tr)
  case Nil
  then show ?case by simp
next
  case (Cons it rest)
  show ?case
  proof (cases it)
    case (outer_ring ring)
    define tr1 where "tr1 =
      (if np > 0 then tr @ [Multipolygon_polygon_finish] else tr)
        @ [Multipolygon_polygon_start, Multipolygon_outer_ring_start]"
    define b1 where "b1 =
      impl_multipolygon_outer_ring_start impl
        (impl_multipolygon_polygon_start impl
          (if np > 0 then impl_multipolygon_polygon_finish impl b else b))"
    have inv1: "replay impl tr1 b0 = b1"
      unfolding tr1_def b1_def using Cons.prems by simp
    have rec_eq: "multipolygon_loop recorder proj (it # rest) np nr tr =
        (case add_points recorder proj ring tr1 of
           (Inl e, tr') \<Rightarrow> (Inl e, tr')
         | (Inr u, tr') \<Rightarrow>
             multipolygon_loop recorder proj rest (Suc np) (Suc nr)
               (impl_multipolygon_outer_ring_finish recorder tr'))"
      unfolding tr1_def using outer_ring by simp
    have gen_eq: "multipolygon_loop impl proj (it # rest) np nr b =
        (case add_points impl proj ring b1 of
           (Inl e, b') \<Rightarrow> (Inl e, b')
         | (Inr u, b') \<Rightarrow>
             multipolygon_loop impl proj rest (Suc np) (Suc nr)
               (impl_multipolygon_outer_ring_finish impl b'))"
      unfolding b1_def using outer_ring by simp
    obtain r tr2 where rec: "add_points recorder proj ring tr1 = (r, tr2)"
      by (cases "add_points recorder proj ring tr1")
    then have gen: "add_points impl proj ring b1 = (r, replay impl tr2 b0)"
      using add_points_replay [OF inv1, of proj ring] by simp
    show ?thesis
    proof (cases r)
      case (Inl e)
      then show ?thesis unfolding rec_eq gen_eq rec gen by simp
    next
      case (Inr u)
      have inv2: "replay impl (tr2 @ [Multipolygon_outer_ring_finish]) b0
                    = impl_multipolygon_outer_ring_finish impl (replay impl tr2 b0)"
        by simp
      from Cons.IH [OF inv2, of "Suc np" "Suc nr"] Inr
      show ?thesis unfolding rec_eq gen_eq rec gen by simp
    qed
  next
    case (inner_ring ring)
    define tr1 where "tr1 = tr @ [Multipolygon_inner_ring_start]"
    define b1 where "b1 = impl_multipolygon_inner_ring_start impl b"
    have inv1: "replay impl tr1 b0 = b1"
      unfolding tr1_def b1_def using Cons.prems by simp
    have rec_eq: "multipolygon_loop recorder proj (it # rest) np nr tr =
        (case add_points recorder proj ring tr1 of
           (Inl e, tr') \<Rightarrow> (Inl e, tr')
         | (Inr u, tr') \<Rightarrow>
             multipolygon_loop recorder proj rest np (Suc nr)
               (impl_multipolygon_inner_ring_finish recorder tr'))"
      unfolding tr1_def using inner_ring by simp
    have gen_eq: "multipolygon_loop impl proj (it # rest) np nr b =
        (case add_points impl proj ring b1 of
           (Inl e, b') \<Rightarrow> (Inl e, b')
         | (Inr u, b') \<Rightarrow>
             multipolygon_loop impl proj rest np (Suc nr)
               (impl_multipolygon_inner_ring_finish impl b'))"
      unfolding b1_def using inner_ring by simp
    obtain r tr2 where rec: "add_points recorder proj ring tr1 = (r, tr2)"
      by (cases "add_points recorder proj ring tr1")
    then have gen: "add_points impl proj ring b1 = (r, replay impl tr2 b0)"
      using add_points_replay [OF inv1, of proj ring] by simp
    show ?thesis
    proof (cases r)
      case (Inl e)
      then show ?thesis unfolding rec_eq gen_eq rec gen by simp
    next
      case (Inr u)
      have inv2: "replay impl (tr2 @ [Multipolygon_inner_ring_finish]) b0
                    = impl_multipolygon_inner_ring_finish impl (replay impl tr2 b0)"
        by simp
      from Cons.IH [OF inv2, of np "Suc nr"] Inr
      show ?thesis unfolding rec_eq gen_eq rec gen by simp
    qed
  next
    case other_item
    then show ?thesis using Cons.IH [OF Cons.prems] by simp
  qed
qed

lemma create_linestring_replay:
  "outcome (fst (create_linestring impl proj wnl un dir b))
     = outcome (fst (create_linestring recorder proj wnl un dir []))
   \<and> snd (create_linestring impl proj wnl un dir b)
     = replay impl (snd (create_linestring recorder proj wnl un dir [])) b"
proof -
  have inv: "replay impl [Linestring_start] b = impl_linestring_start impl b"
    by simp
  note u = fill_linestring_unique_loop_replay [OF inv, of proj _ 0 undefined_location]
  note a = fill_linestring_loop_replay [OF inv, of proj _ 0]
  show ?thesis
    by (cases un; cases dir)
       (auto simp: create_linestring_def fill_linestring_unique_def fill_linestring_def
          linestring_start_def linestring_finish_def u a split: prod.splits sum.splits)
qed

lemma create_polygon_replay:
  "outcome (fst (create_polygon impl proj wnl un dir b))
     = outcome (fst (create_polygon recorder proj wnl un dir []))
   \<and> snd (create_polygon impl proj wnl un dir b)
     = replay impl (snd (create_polygon recorder proj wnl un dir [])) b"
proof -
  have inv: "replay impl [Polygon_start] b = impl_polygon_start impl b"
    by simp
  note u = fill_polygon_unique_loop_replay [OF inv, of proj _ 0 undefined_location]
  note a = fill_polygon_loop_replay [OF inv, of proj _ 0]
  show ?thesis
    by (cases un; cases dir)
       (auto simp: create_polygon_def fill_polygon_unique_def fill_polygon_def
          polygon_start_def polygon_finish_def u a split: prod.splits sum.splits)
qed

lemma outcome_catch_set_id:
  assumes "outcome r = outcome r'"
  shows "outcome (catch_set_id t i r) = outcome (catch_set_id t i r')"
proof (cases r)
  case (Inl e)
  then show ?thesis using assms by (cases e; cases r') auto
next
  case (Inr v)
  then show ?thesis using assms by (cases r') auto
qed

lemma create_multipolygon_replay:
  "outcome (fst (create_multipolygon impl proj a b))
     = outcome (fst (create_multipolygon recorder proj a []))
   \<and> snd (create_multipolygon impl proj a b)
     = replay impl (snd (create_multipolygon recorder proj a [])) b"
proof -
  have inv: "replay impl [Multipolygon_start] b = impl_multipolygon_start impl b"
    by simp
  note l = multipolygon_loop_replay [OF inv, of proj "area_items a" 0 0]
  have t: "outcome (fst (create_multipolygon_try impl proj a b))
     = outcome (fst (create_multipolygon_try recorder proj a []))
   \<and> snd (create_multipolygon_try impl proj a b)
     = replay impl (snd (create_multipolygon_try recorder proj a [])) b"
    by (auto simp: create_multipolygon_try_def l split: prod.splits sum.splits)
  show ?thesis
    using t outcome_catch_set_id [of "fst (create_multipolygon_try impl proj a b)"
             "fst (create_multipolygon_try recorder proj a [])" "''area''" "area_id a"]
    by (simp add: create_multipolygon_def case_prod_beta)
qed

subsection \<open>Where a run of equal Locations gives one point\<close>

text \<open>
  A list that does not start with \<open>last_location\<close> is deduplicated as \<open>remdups_adj\<close>
  deduplicates it.
\<close>

lemma emitted_from_defined_head:
  assumes "ls = [] \<or> hd ls \<noteq> a"
  shows "emitted_from a ls = remdups_adj ls"
proof (cases ls)
  case Nil
  then show ?thesis by simp
next
  case (Cons l rest)
  with assms have "a \<noteq> l" by auto
  then have "emitted_from a ls = l # emitted_from l rest"
    using Cons by simp
  also have "\<dots> = l # tl (remdups_adj (l # rest))"
    by (simp only: emitted_from_remdups_adj)
  also have "\<dots> = remdups_adj (l # rest)"
    by (cases rest) auto
  finally show ?thesis using Cons by simp
qed

text \<open>
  Let the node list, in the direction of traversal, be \<open>pre @ run @ post\<close>, where
  \<open>run\<close> holds more than one node, all at the Location \<open>loc\<close>, and the node before the
  run (if any) is at another Location. If the run does not stand at the start of the
  traversal with \<open>loc\<close> the undefined Location, then \<open>unique\<close> emits the points of
  \<open>pre\<close>, one point for the run and the points of \<open>post\<close>; \<open>all\<close> emits one point
  per node.
\<close>

lemma run_emitted_once:
  assumes total: "\<forall>l. project proj l = Inr (p l)"
    and trav: "(case dir of forward \<Rightarrow> wnl | backward \<Rightarrow> rev wnl) = pre @ run @ post"
    and run: "1 < length run" "\<forall>it\<in>set run. nr_location it = loc"
    and left: "pre = [] \<or> nr_location (last pre) \<noteq> loc"
    and head: "pre = [] \<longrightarrow> loc \<noteq> undefined_location"
  shows "emitted_points (snd (create_linestring recorder proj wnl unique dir [])) =
           emitted_points (snd (fill_linestring_unique recorder proj pre []))
           @ [p loc]
           @ emitted_points (snd (fill_linestring_unique_loop recorder proj post 0 loc []))
       \<and> emitted_points (snd (create_linestring recorder proj wnl all_nodes dir [])) =
           emitted_points (snd (fill_linestring recorder proj pre []))
           @ replicate (length run) (p loc)
           @ emitted_points (snd (fill_linestring recorder proj post []))
       \<and> emitted_points (snd (create_polygon recorder proj wnl unique dir [])) =
           emitted_points (snd (fill_polygon_unique recorder proj pre []))
           @ [p loc]
           @ emitted_points (snd (fill_polygon_unique_loop recorder proj post 0 loc []))
       \<and> emitted_points (snd (create_polygon recorder proj wnl all_nodes dir [])) =
           emitted_points (snd (fill_polygon recorder proj pre []))
           @ replicate (length run) (p loc)
           @ emitted_points (snd (fill_polygon recorder proj post []))"
proof -
  have ne: "map nr_location run \<noteq> []" using run(1) by auto
  have same: "\<forall>l\<in>set (map nr_location run). l = loc" using run(2) by auto
  have lst: "last (undefined_location # map nr_location pre) \<noteq> loc"
    using left head by (cases "pre = []") (auto simp: last_map)
  have uniq: "emitted_from undefined_location (map nr_location (pre @ run @ post))
        = emitted_from undefined_location (map nr_location pre) @ [loc]
          @ emitted_from loc (map nr_location post)"
    using emitted_from_pre_run_post [OF ne same lst] by simp
  have alln: "map nr_location (pre @ run @ post)
        = map nr_location pre @ replicate (length run) loc @ map nr_location post"
    using map_location_run [OF run(2)] by simp
  show ?thesis
    using uniq alln
    by (simp add: create_linestring_points [OF total] create_polygon_points [OF total] trav
        fill_linestring_unique_def fill_polygon_unique_def fill_linestring_def fill_polygon_def
        fill_linestring_unique_loop_recorder [OF total] fill_polygon_unique_loop_recorder [OF total]
        fill_linestring_loop_recorder [OF total] fill_polygon_loop_recorder [OF total] o_def)
qed


subsection \<open>The rings of a multipolygon\<close>

text \<open>
  Whatever the projection does, \<open>add_points\<close> emits the points that the \<open>unique\<close> loop
  of \<open>create_linestring\<close> emits for the same nodes.
\<close>

lemma add_points_like_unique:
  "emitted_points (snd (add_points recorder proj ring []))
     = emitted_points (snd (fill_linestring_unique recorder proj ring []))"
  unfolding add_points_def fill_linestring_unique_def
  by (rule add_points_loop_like_unique) simp

text \<open>
  The calls of \<open>create_multipolygon\<close> for the spec's example area: one polygon, the outer
  ring with four points, the inner ring with four points, nothing thrown.
\<close>

lemma create_multipolygon_example:
  "snd (create_multipolygon recorder IdentityProjection example_area [])
     = [Multipolygon_start,
        Multipolygon_polygon_start,
        Multipolygon_outer_ring_start,
        Multipolygon_add_location \<lparr>coord_x = 0, coord_y = 0\<rparr>,
        Multipolygon_add_location \<lparr>coord_x = 1, coord_y = 0\<rparr>,
        Multipolygon_add_location \<lparr>coord_x = 1, coord_y = 1\<rparr>,
        Multipolygon_add_location \<lparr>coord_x = 0, coord_y = 0\<rparr>,
        Multipolygon_outer_ring_finish,
        Multipolygon_inner_ring_start,
        Multipolygon_add_location \<lparr>coord_x = 0.2, coord_y = 0.2\<rparr>,
        Multipolygon_add_location \<lparr>coord_x = 0.3, coord_y = 0.2\<rparr>,
        Multipolygon_add_location \<lparr>coord_x = 0.3, coord_y = 0.3\<rparr>,
        Multipolygon_add_location \<lparr>coord_x = 0.2, coord_y = 0.2\<rparr>,
        Multipolygon_inner_ring_finish,
        Multipolygon_polygon_finish,
        Multipolygon_finish]
   \<and> fst (create_multipolygon recorder IdentityProjection example_area [])
     = Inr (snd (create_multipolygon recorder IdentityProjection example_area []))"
  by (simp add: example_area_def create_multipolygon_def create_multipolygon_try_def
        add_points_def IdentityProjection_def undefined_location_def)

text \<open>
  Under a projection that never throws, every ring of every area is deduplicated: the
  recorded calls of \<open>create_multipolygon\<close> are those of \<open>loop_calls\<close>, whose rings hold
  the points of \<open>emitted_from undefined_location\<close>.
\<close>

lemma create_multipolygon_calls:
  assumes "\<forall>l. project proj l = Inr (p l)" and "ring_count (area_items a) \<noteq> 0"
  shows "snd (create_multipolygon recorder proj a [])
           = [Multipolygon_start] @ loop_calls p (area_items a) False
             @ [Multipolygon_polygon_finish, Multipolygon_finish]"
  using assms(2) by (simp add: create_multipolygon_recorder [OF assms(1)])

section \<open>Theorems\<close>

text \<open>
  The points that a function of the factory emits and the calls that it makes are read
  off the recording backend, started with an empty call list; by the lemmas
  \<open>create_linestring_replay\<close>, \<open>create_polygon_replay\<close> and
  \<open>create_multipolygon_replay\<close> every other backend receives the same calls and the
  same exception is thrown. Where a theorem assumes \<open>\<forall>l. project proj l = Inr (p l)\<close>, it
  is about a projection that never throws, as the spec assumes of projections; \<open>p\<close> is
  then the function that the projection computes.
\<close>

text \<open>
  C1, evaluated where the code departs from it. \<open>fill_linestring_unique\<close> and
  \<open>fill_polygon_unique\<close> start \<open>last_location\<close> at the default-constructed Location,
  the undefined one. For a way of two nodes that both have the undefined Location, a run of
  two equal Locations, \<open>unique\<close> emits no point at all instead of one, and
  \<open>create_linestring\<close> and \<open>create_polygon\<close> throw. On the same way \<open>all\<close> emits two
  points, and the same run after a node at (0,0) gives its one point under \<open>unique\<close>.
\<close>

theorem C1_leading_run_lost:
  "create_linestring recorder IdentityProjection
     [\<lparr>nr_ref = 1, nr_location = undefined_location\<rparr>,
      \<lparr>nr_ref = 2, nr_location = undefined_location\<rparr>] unique forward []
   = (Inl (Geometry_error \<lparr>m_message = ''need at least two points for linestring'', m_id = 0\<rparr>),
      [Linestring_start])
   \<and> create_polygon recorder IdentityProjection
     [\<lparr>nr_ref = 1, nr_location = undefined_location\<rparr>,
      \<lparr>nr_ref = 2, nr_location = undefined_location\<rparr>] unique forward []
   = (Inl (Geometry_error \<lparr>m_message = ''need at least four points for polygon'', m_id = 0\<rparr>),
      [Polygon_start])
   \<and> emitted_points (snd (create_linestring recorder IdentityProjection
     [\<lparr>nr_ref = 1, nr_location = undefined_location\<rparr>,
      \<lparr>nr_ref = 2, nr_location = undefined_location\<rparr>] all_nodes forward []))
   = [\<lparr>coord_x = lon undefined_location, coord_y = lat undefined_location\<rparr>,
      \<lparr>coord_x = lon undefined_location, coord_y = lat undefined_location\<rparr>]
   \<and> emitted_points (snd (create_linestring recorder IdentityProjection
     [\<lparr>nr_ref = 3, nr_location = \<lparr>lon = 0, lat = 0\<rparr>\<rparr>,
      \<lparr>nr_ref = 1, nr_location = undefined_location\<rparr>,
      \<lparr>nr_ref = 2, nr_location = undefined_location\<rparr>] unique forward []))
   = [\<lparr>coord_x = 0, coord_y = 0\<rparr>,
      \<lparr>coord_x = lon undefined_location, coord_y = lat undefined_location\<rparr>]"
  by (simp add: create_linestring_def create_polygon_def fill_linestring_unique_def
        fill_polygon_unique_def fill_linestring_def linestring_start_def polygon_start_def
        linestring_finish_def geometry_error_def IdentityProjection_def undefined_location_def)

text \<open>
  C2. Let \<open>pts\<close> be the points of the node list after the direction and dedup
  policies: the list, reversed for direction backward, with every node kept under
  \<open>all\<close> and the nodes kept by \<open>emitted_from undefined_location\<close> under \<open>unique\<close>,
  projected. On every backend \<open>create_linestring\<close> calls \<open>linestring_start\<close> and adds exactly
  these points. If they are fewer than two, it then throws the \<open>geometry_error\<close> with
  the message "need at least two points for linestring" (and no id) and calls no
  \<open>linestring_finish\<close>. Otherwise it calls \<open>linestring_finish\<close> with the number of points
  and returns what that call returns.
\<close>

theorem C2_create_linestring:
  assumes "\<forall>l. project proj l = Inr (p l)"
  shows "(let pts = map p (case un of
                          unique \<Rightarrow>
                            emitted_from undefined_location
                              (map nr_location (case dir of forward \<Rightarrow> wnl | backward \<Rightarrow> rev wnl))
                        | all_nodes \<Rightarrow>
                            map nr_location (case dir of forward \<Rightarrow> wnl | backward \<Rightarrow> rev wnl));
              b' = replay impl (Linestring_start # map Linestring_add_location pts) b
          in create_linestring impl proj wnl un dir b =
               (if length pts < 2
                then (Inl (Geometry_error
                            \<lparr>m_message = ''need at least two points for linestring'', m_id = 0\<rparr>),
                      b')
                else (Inr (fst (impl_linestring_finish impl (length pts) b')),
                      snd (impl_linestring_finish impl (length pts) b'))))"
proof -
  have inv: "replay impl [Linestring_start] b = impl_linestring_start impl b"
    by simp
  note gen = fill_linestring_unique_loop_replay [OF inv, of proj _ 0 undefined_location]
             fill_linestring_loop_replay [OF inv, of proj _ 0]
  note rec = fill_linestring_unique_loop_recorder [OF assms] fill_linestring_loop_recorder [OF assms]
  show ?thesis
    by (cases un; cases dir)
       (simp_all add: create_linestring_def fill_linestring_unique_def fill_linestring_def
          linestring_start_def linestring_finish_def geometry_error_def gen rec o_def rev_map
          case_prod_beta Let_def)
qed

text \<open>
  On the recording backend: two nodes at one Location give one point and the error; two
  nodes at different Locations, traversed backward, give a linestring of two points,
  the second node first.
\<close>

theorem C2_create_linestring_witness:
  "create_linestring recorder IdentityProjection
     [\<lparr>nr_ref = 1, nr_location = \<lparr>lon = 1, lat = 2\<rparr>\<rparr>,
      \<lparr>nr_ref = 2, nr_location = \<lparr>lon = 1, lat = 2\<rparr>\<rparr>] unique forward []
   = (Inl (Geometry_error \<lparr>m_message = ''need at least two points for linestring'', m_id = 0\<rparr>),
      [Linestring_start, Linestring_add_location \<lparr>coord_x = 1, coord_y = 2\<rparr>])
   \<and> create_linestring recorder IdentityProjection
     [\<lparr>nr_ref = 1, nr_location = \<lparr>lon = 1, lat = 2\<rparr>\<rparr>,
      \<lparr>nr_ref = 2, nr_location = \<lparr>lon = 3, lat = 4\<rparr>\<rparr>] unique backward []
   = (Inr [Linestring_start, Linestring_add_location \<lparr>coord_x = 3, coord_y = 4\<rparr>,
           Linestring_add_location \<lparr>coord_x = 1, coord_y = 2\<rparr>, Linestring_finish 2],
      [Linestring_start, Linestring_add_location \<lparr>coord_x = 3, coord_y = 4\<rparr>,
       Linestring_add_location \<lparr>coord_x = 1, coord_y = 2\<rparr>, Linestring_finish 2])"
proof -
  have defined: "\<lparr>lon = 1, lat = 2\<rparr> \<noteq> undefined_location"
                "\<lparr>lon = 3, lat = 4\<rparr> \<noteq> undefined_location"
    by (simp_all add: undefined_location_def)
  from C2_create_linestring [OF identity_total,
      where wnl = "[\<lparr>nr_ref = 1, nr_location = \<lparr>lon = 1, lat = 2\<rparr>\<rparr>,
           \<lparr>nr_ref = 2, nr_location = \<lparr>lon = 1, lat = 2\<rparr>\<rparr>]"
        and un = unique and dir = forward and impl = recorder and b = "[]"]
    C2_create_linestring [OF identity_total,
      where wnl = "[\<lparr>nr_ref = 1, nr_location = \<lparr>lon = 1, lat = 2\<rparr>\<rparr>,
           \<lparr>nr_ref = 2, nr_location = \<lparr>lon = 3, lat = 4\<rparr>\<rparr>]"
        and un = unique and dir = backward and impl = recorder and b = "[]"]
  show ?thesis using defined by (simp add: Let_def)
qed

text \<open>
  C3. Let \<open>pts\<close> be the points of the node list after the direction and dedup
  policies: the list, reversed for direction backward, with every node kept under
  \<open>all\<close> and the nodes kept by \<open>emitted_from undefined_location\<close> under \<open>unique\<close>,
  projected. On every backend \<open>create_polygon\<close> calls \<open>polygon_start\<close> and adds exactly
  these points. If they are fewer than four, it then throws the \<open>geometry_error\<close> with
  the message "need at least four points for polygon" (and no id) and calls no
  \<open>polygon_finish\<close>. Otherwise it calls \<open>polygon_finish\<close> with the number of points
  and returns what that call returns.
\<close>

theorem C3_create_polygon:
  assumes "\<forall>l. project proj l = Inr (p l)"
  shows "(let pts = map p (case un of
                          unique \<Rightarrow>
                            emitted_from undefined_location
                              (map nr_location (case dir of forward \<Rightarrow> wnl | backward \<Rightarrow> rev wnl))
                        | all_nodes \<Rightarrow>
                            map nr_location (case dir of forward \<Rightarrow> wnl | backward \<Rightarrow> rev wnl));
              b' = replay impl (Polygon_start # map Polygon_add_location pts) b
          in create_polygon impl proj wnl un dir b =
               (if length pts < 4
                then (Inl (Geometry_error
                            \<lparr>m_message = ''need at least four points for polygon'', m_id = 0\<rparr>),
                      b')
                else (Inr (fst (impl_polygon_finish impl (length pts) b')),
                      snd (impl_polygon_finish impl (length pts) b'))))"
proof -
  have inv: "replay impl [Polygon_start] b = impl_polygon_start impl b"
    by simp
  note gen = fill_polygon_unique_loop_replay [OF inv, of proj _ 0 undefined_location]
             fill_polygon_loop_replay [OF inv, of proj _ 0]
  note rec = fill_polygon_unique_loop_recorder [OF assms] fill_polygon_loop_recorder [OF assms]
  show ?thesis
    by (cases un; cases dir)
       (simp_all add: create_polygon_def fill_polygon_unique_def fill_polygon_def
          polygon_start_def polygon_finish_def geometry_error_def gen rec o_def rev_map
          case_prod_beta Let_def)
qed

text \<open>
  On the recording backend: a closed ring of four nodes whose first two share a Location
  gives three points and the error under \<open>unique\<close>, a polygon of four points under
  \<open>all\<close>.
\<close>

theorem C3_create_polygon_witness:
  "create_polygon recorder IdentityProjection
     [\<lparr>nr_ref = 1, nr_location = \<lparr>lon = 0, lat = 0\<rparr>\<rparr>,
           \<lparr>nr_ref = 2, nr_location = \<lparr>lon = 0, lat = 0\<rparr>\<rparr>,
           \<lparr>nr_ref = 3, nr_location = \<lparr>lon = 1, lat = 0\<rparr>\<rparr>,
           \<lparr>nr_ref = 1, nr_location = \<lparr>lon = 0, lat = 0\<rparr>\<rparr>] unique forward []
   = (Inl (Geometry_error \<lparr>m_message = ''need at least four points for polygon'', m_id = 0\<rparr>),
      [Polygon_start,
       Polygon_add_location \<lparr>coord_x = 0, coord_y = 0\<rparr>,
       Polygon_add_location \<lparr>coord_x = 1, coord_y = 0\<rparr>,
       Polygon_add_location \<lparr>coord_x = 0, coord_y = 0\<rparr>])
   \<and> snd (create_polygon recorder IdentityProjection
     [\<lparr>nr_ref = 1, nr_location = \<lparr>lon = 0, lat = 0\<rparr>\<rparr>,
           \<lparr>nr_ref = 2, nr_location = \<lparr>lon = 0, lat = 0\<rparr>\<rparr>,
           \<lparr>nr_ref = 3, nr_location = \<lparr>lon = 1, lat = 0\<rparr>\<rparr>,
           \<lparr>nr_ref = 1, nr_location = \<lparr>lon = 0, lat = 0\<rparr>\<rparr>] all_nodes forward [])
   = [Polygon_start,
      Polygon_add_location \<lparr>coord_x = 0, coord_y = 0\<rparr>,
      Polygon_add_location \<lparr>coord_x = 0, coord_y = 0\<rparr>,
      Polygon_add_location \<lparr>coord_x = 1, coord_y = 0\<rparr>,
      Polygon_add_location \<lparr>coord_x = 0, coord_y = 0\<rparr>,
      Polygon_finish 4]"
proof -
  have defined: "\<lparr>lon = 0, lat = 0\<rparr> \<noteq> undefined_location"
                "\<lparr>lon = 1, lat = 0\<rparr> \<noteq> undefined_location"
    by (simp_all add: undefined_location_def)
  from C3_create_polygon [OF identity_total,
      where wnl = "[\<lparr>nr_ref = 1, nr_location = \<lparr>lon = 0, lat = 0\<rparr>\<rparr>,
           \<lparr>nr_ref = 2, nr_location = \<lparr>lon = 0, lat = 0\<rparr>\<rparr>,
           \<lparr>nr_ref = 3, nr_location = \<lparr>lon = 1, lat = 0\<rparr>\<rparr>,
           \<lparr>nr_ref = 1, nr_location = \<lparr>lon = 0, lat = 0\<rparr>\<rparr>]"
        and un = unique and dir = forward and impl = recorder and b = "[]"]
    C3_create_polygon [OF identity_total,
      where wnl = "[\<lparr>nr_ref = 1, nr_location = \<lparr>lon = 0, lat = 0\<rparr>\<rparr>,
           \<lparr>nr_ref = 2, nr_location = \<lparr>lon = 0, lat = 0\<rparr>\<rparr>,
           \<lparr>nr_ref = 3, nr_location = \<lparr>lon = 1, lat = 0\<rparr>\<rparr>,
           \<lparr>nr_ref = 1, nr_location = \<lparr>lon = 0, lat = 0\<rparr>\<rparr>]"
        and un = all_nodes and dir = forward and impl = recorder and b = "[]"]
  show ?thesis using defined by (simp add: Let_def)
qed

text \<open>
  C4. The loop of \<open>create_multipolygon\<close> ends with \<open>num_polygons\<close> the number of outer
  rings and \<open>num_rings\<close> the number of rings among the area's items. \<open>create_multipolygon\<close>
  throws the \<open>geometry_error\<close> "invalid area", with the area's id set on it (and appended to
  the message as " (area_id=N)" when the id is not 0), if and only if that number of rings
  is zero; the backend has then seen \<open>multipolygon_start\<close> and nothing else, so neither
  \<open>multipolygon_polygon_finish\<close> nor \<open>multipolygon_finish\<close>. With at least one ring it
  returns what \<open>multipolygon_finish\<close> returned; in particular, for an area with inner rings
  and no outer ring nothing is thrown although \<open>multipolygon_polygon_start\<close> was never called.
\<close>

theorem C4_invalid_area:
  assumes "\<forall>l. project proj l = Inr (p l)"
  shows "fst (multipolygon_loop recorder proj (area_items a) 0 0 tr)
           = Inr (outer_ring_count (area_items a), ring_count (area_items a))
       \<and> (fst (create_multipolygon recorder proj a tr) =
            Inl (Geometry_error
                  \<lparr>m_message = (if area_id a = 0 then ''invalid area''
                                  else ''invalid area (area_id='' @ to_string (area_id a) @ '')''),
                   m_id = area_id a\<rparr>))
          = (ring_count (area_items a) = 0)
       \<and> (ring_count (area_items a) = 0 \<longrightarrow>
            snd (create_multipolygon recorder proj a tr) = tr @ [Multipolygon_start])
       \<and> (ring_count (area_items a) \<noteq> 0 \<longrightarrow>
            fst (create_multipolygon recorder proj a tr)
              = Inr (snd (create_multipolygon recorder proj a tr))
            \<and> last (snd (create_multipolygon recorder proj a tr)) = Multipolygon_finish)
       \<and> (ring_count (area_items a) \<noteq> 0 \<and> outer_ring_count (area_items a) = 0 \<longrightarrow>
            Multipolygon_polygon_start \<notin> set (snd (create_multipolygon recorder proj a [])))"
  using loop_calls_no_outer [of "area_items a" p False]
  by (simp add: create_multipolygon_recorder [OF assms] multipolygon_loop_recorder [OF assms]
        set_id_def id_suffix_def)

text \<open>
  An area whose only item is not a ring gives the error; an area whose only ring is an
  inner ring gives a multipolygon without any \<open>multipolygon_polygon_start\<close>.
\<close>

theorem C4_invalid_area_witness:
  "create_multipolygon recorder IdentityProjection \<lparr>area_id = 7, area_items = [other_item]\<rparr> []
     = (Inl (Geometry_error \<lparr>m_message = ''invalid area (area_id=7)'', m_id = 7\<rparr>),
        [Multipolygon_start])
   \<and> ring_count [inner_ring [\<lparr>nr_ref = 1, nr_location = \<lparr>lon = 1, lat = 2\<rparr>\<rparr>]] = 1
   \<and> outer_ring_count [inner_ring [\<lparr>nr_ref = 1, nr_location = \<lparr>lon = 1, lat = 2\<rparr>\<rparr>]] = 0
   \<and> snd (create_multipolygon recorder IdentityProjection
        \<lparr>area_id = 7, area_items = [inner_ring [\<lparr>nr_ref = 1, nr_location = \<lparr>lon = 1, lat = 2\<rparr>\<rparr>]]\<rparr> [])
     = [Multipolygon_start, Multipolygon_inner_ring_start,
        Multipolygon_add_location \<lparr>coord_x = 1, coord_y = 2\<rparr>,
        Multipolygon_inner_ring_finish, Multipolygon_polygon_finish, Multipolygon_finish]"
  using
    C4_invalid_area [OF identity_total, of "\<lparr>area_id = 7, area_items = [other_item]\<rparr>" "[]"]
    C4_invalid_area [OF identity_total,
      of "\<lparr>area_id = 7, area_items = [inner_ring [\<lparr>nr_ref = 1, nr_location = \<lparr>lon = 1, lat = 2\<rparr>\<rparr>]]\<rparr>" "[]"]
  by (simp add: create_multipolygon_def create_multipolygon_try_def add_points_def
        IdentityProjection_def undefined_location_def geometry_error_def set_id_def id_suffix_def
        to_string_examples)

text \<open>
  C5, evaluated where the code departs from it. \<open>add_points\<close> starts \<open>last_location\<close>
  at the default-constructed Location, as the \<open>unique\<close> loops of C1 do. For the area
  with id 7 whose outer ring has two nodes, both at the undefined Location, the two equal
  Locations are not merged into one point: the ring gets no point at all. The same two
  nodes after a node at (0,0) are merged into one point. (For the spec's example area the
  calls are those the claim lists: lemma \<open>create_multipolygon_example\<close>.)
\<close>

theorem C5_leading_ring_run_lost:
  "snd (create_multipolygon recorder IdentityProjection
     \<lparr>area_id = 7,
      area_items = [outer_ring [\<lparr>nr_ref = 1, nr_location = undefined_location\<rparr>,
                                \<lparr>nr_ref = 2, nr_location = undefined_location\<rparr>]]\<rparr> [])
   = [Multipolygon_start, Multipolygon_polygon_start, Multipolygon_outer_ring_start,
      Multipolygon_outer_ring_finish, Multipolygon_polygon_finish, Multipolygon_finish]
   \<and> snd (create_multipolygon recorder IdentityProjection
     \<lparr>area_id = 7,
      area_items = [outer_ring [\<lparr>nr_ref = 3, nr_location = \<lparr>lon = 0, lat = 0\<rparr>\<rparr>,
                                \<lparr>nr_ref = 1, nr_location = undefined_location\<rparr>,
                                \<lparr>nr_ref = 2, nr_location = undefined_location\<rparr>]]\<rparr> [])
   = [Multipolygon_start, Multipolygon_polygon_start, Multipolygon_outer_ring_start,
      Multipolygon_add_location \<lparr>coord_x = 0, coord_y = 0\<rparr>,
      Multipolygon_add_location \<lparr>coord_x = lon undefined_location, coord_y = lat undefined_location\<rparr>,
      Multipolygon_outer_ring_finish, Multipolygon_polygon_finish, Multipolygon_finish]"
  by (simp add: create_multipolygon_def create_multipolygon_try_def add_points_def
        IdentityProjection_def undefined_location_def)

text \<open>
  C6, evaluated where the code departs from it. \<open>set_id\<close> guards the message with
  \<open>m_id == 0\<close>, but assigns \<open>m_id = id\<close> outside that guard. So an outer wrapper does
  overwrite the id: after way 123 and area 7 the message names the way and \<open>id()\<close> is 7.
  And a wrapper with id 0 empties the slot again: after node 5, way 0 and area 7 the
  message carries two suffixes.
\<close>

theorem C6_set_id_overwrites:
  "set_id ''area'' 7 (set_id ''way'' 123
      (geometry_error ''need at least two points for linestring'' [] 0))
     = \<lparr>m_message = ''need at least two points for linestring (way_id=123)'', m_id = 7\<rparr>
   \<and> set_id ''area'' 7 (set_id ''way'' 0 (set_id ''node'' 5
      (geometry_error ''need at least two points for linestring'' [] 0)))
     = \<lparr>m_message = ''need at least two points for linestring (node_id=5) (area_id=7)'', m_id = 7\<rparr>"
  by (simp add: set_id_def geometry_error_def id_suffix_def to_string_examples)

text \<open>
  With a single wrapper the message has the form that C6 quotes: a way with id 123 and
  no nodes.
\<close>

lemma create_linestring_way_message:
  "create_linestring_way recorder IdentityProjection \<lparr>way_id = 123, way_nodes = []\<rparr> unique forward []
     = (Inl (Geometry_error
              \<lparr>m_message = ''need at least two points for linestring (way_id=123)'', m_id = 123\<rparr>),
        [Linestring_start])"
  by (simp add: create_linestring_way_def create_linestring_def fill_linestring_unique_def
        linestring_start_def geometry_error_def set_id_def id_suffix_def to_string_examples)

text \<open>
  C7. For every backend, projection, node list and dedup mode, \<open>create_linestring\<close> with
  direction backward does what \<open>create_linestring\<close> with direction forward does on the
  reversed list: the same outcome and the same backend calls, hence the same points in the
  same order.
\<close>

theorem C7_backward_is_reverse:
  "create_linestring impl proj wnl un backward b = create_linestring impl proj (rev wnl) un forward b"
  by (simp add: create_linestring_def)

text \<open>
  C8 (as amended). If the projection throws a \<open>geometry_error\<close> that carries no id and the
  node's id is not 0, \<open>create_point(node)\<close> throws that error with " (node_id=N)" appended
  to its message once and with the node's id as its id, and running the handler again with
  the same id changes nothing. If the projection throws an exception of another class,
  \<open>create_point(node)\<close> throws it unchanged: the handler catches \<open>geometry_error\<close> only.
\<close>

theorem C8_create_point_node:
  "(project proj (node_location n) = Inl (Geometry_error e) \<and> m_id e = 0 \<and> node_id n \<noteq> 0 \<longrightarrow>
      create_point_node impl proj n
        = Inl (Geometry_error
                \<lparr>m_message = m_message e @ '' (node_id='' @ to_string (node_id n) @ '')'',
                 m_id = node_id n\<rparr>)
      \<and> catch_set_id ''node'' (node_id n) (create_point_node impl proj n)
          = create_point_node impl proj n)
   \<and> (project proj (node_location n) = Inl (Other_error w) \<longrightarrow>
        create_point_node impl proj n = Inl (Other_error w))"
  by (simp add: create_point_node_def create_point_def set_id_def id_suffix_def)

theorem C8_create_point_node_witness:
  "project (throwing_projection (Geometry_error (geometry_error ''projection failed'' [] 0)))
       (node_location \<lparr>node_id = 17, node_location = \<lparr>lon = 1, lat = 2\<rparr>\<rparr>)
     = Inl (Geometry_error \<lparr>m_message = ''projection failed'', m_id = 0\<rparr>)
   \<and> create_point_node recorder
        (throwing_projection (Geometry_error (geometry_error ''projection failed'' [] 0)))
        \<lparr>node_id = 17, node_location = \<lparr>lon = 1, lat = 2\<rparr>\<rparr>
     = Inl (Geometry_error \<lparr>m_message = ''projection failed (node_id=17)'', m_id = 17\<rparr>)
   \<and> project (throwing_projection (Other_error ''projection failed''))
       (node_location \<lparr>node_id = 17, node_location = \<lparr>lon = 1, lat = 2\<rparr>\<rparr>)
     = Inl (Other_error ''projection failed'')
   \<and> create_point_node recorder (throwing_projection (Other_error ''projection failed''))
        \<lparr>node_id = 17, node_location = \<lparr>lon = 1, lat = 2\<rparr>\<rparr>
     = Inl (Other_error ''projection failed'')"
  using
    C8_create_point_node [of "throwing_projection (Geometry_error (geometry_error ''projection failed'' [] 0))"
      "\<lparr>node_id = 17, node_location = \<lparr>lon = 1, lat = 2\<rparr>\<rparr>"
      "\<lparr>m_message = ''projection failed'', m_id = 0\<rparr>" recorder "''projection failed''"]
    C8_create_point_node [of "throwing_projection (Other_error ''projection failed'')"
      "\<lparr>node_id = 17, node_location = \<lparr>lon = 1, lat = 2\<rparr>\<rparr>"
      "\<lparr>m_message = ''projection failed'', m_id = 0\<rparr>" recorder "''projection failed''"]
  by (simp add: throwing_projection_def geometry_error_def to_string_examples)

text \<open>
  C8 as stated fails: when the projection throws an exception that is not a
  \<open>geometry_error\<close>, the error reaches the caller of \<open>create_point(node)\<close> without the
  id of node 17.
\<close>

theorem C8_counterexample:
  "create_point_node recorder (throwing_projection (Other_error ''projection failed''))
        \<lparr>node_id = 17, node_location = \<lparr>lon = 1, lat = 2\<rparr>\<rparr>
     = Inl (Other_error ''projection failed'')"
  by (simp add: create_point_node_def create_point_def throwing_projection_def)

text \<open>
  C9. For an area with at least one ring in which every inner ring has an outer ring
  somewhere before it, the calls of \<open>create_multipolygon\<close> follow the multipolygon
  protocol: every ring start is followed by its points and its finish, every polygon holds
  one outer ring and then its inner rings between \<open>polygon_start\<close> and \<open>polygon_finish\<close>,
  and nothing stands outside a polygon. \<open>polygon_start\<close>, \<open>polygon_finish\<close>,
  \<open>outer_ring_start\<close> and \<open>outer_ring_finish\<close> are each called once per outer ring,
  \<open>inner_ring_start\<close> and \<open>inner_ring_finish\<close> once per inner ring.
\<close>

theorem C9_multipolygon_protocol:
  assumes total: "\<forall>l. project proj l = Inr (p l)"
    and rings: "0 < ring_count (area_items a)"
    and preceded: "inner_rings_preceded False (area_items a)"
  shows "follows_protocol (snd (create_multipolygon recorder proj a []))
       \<and> count_list (snd (create_multipolygon recorder proj a [])) Multipolygon_polygon_start
           = outer_ring_count (area_items a)
       \<and> count_list (snd (create_multipolygon recorder proj a [])) Multipolygon_polygon_finish
           = outer_ring_count (area_items a)
       \<and> count_list (snd (create_multipolygon recorder proj a [])) Multipolygon_outer_ring_start
           = outer_ring_count (area_items a)
       \<and> count_list (snd (create_multipolygon recorder proj a [])) Multipolygon_outer_ring_finish
           = outer_ring_count (area_items a)
       \<and> count_list (snd (create_multipolygon recorder proj a [])) Multipolygon_inner_ring_start
           = ring_count (area_items a) - outer_ring_count (area_items a)
       \<and> count_list (snd (create_multipolygon recorder proj a [])) Multipolygon_inner_ring_finish
           = ring_count (area_items a) - outer_ring_count (area_items a)"
proof -
  have outer: "0 < outer_ring_count (area_items a)"
    using preceded_outer_ring_count [OF preceded rings] by simp
  have run: "protocol_run In_multipolygon (loop_calls p (area_items a) False) = Some In_polygon"
    using loop_calls_protocol [of False "area_items a" p] preceded outer by simp
  have tr: "snd (create_multipolygon recorder proj a []) =
      [Multipolygon_start] @ loop_calls p (area_items a) False
        @ [Multipolygon_polygon_finish, Multipolygon_finish]"
    using rings by (simp add: create_multipolygon_recorder [OF total])
  have prot: "follows_protocol (snd (create_multipolygon recorder proj a []))"
    unfolding tr follows_protocol_def
    by (simp add: protocol_run_append run)
  note counts = loop_calls_counts [of p "area_items a" False]
  have inner: "count_list (loop_calls p (area_items a) False) Multipolygon_inner_ring_start
                 = ring_count (area_items a) - outer_ring_count (area_items a)"
              "count_list (loop_calls p (area_items a) False) Multipolygon_inner_ring_finish
                 = ring_count (area_items a) - outer_ring_count (area_items a)"
    using counts(5,6) by arith+
  have fin: "Suc (count_list (loop_calls p (area_items a) False) Multipolygon_polygon_finish)
                 = outer_ring_count (area_items a)"
    using counts(2) outer by simp
  show ?thesis
    using prot counts(1,3,4) inner fin
    by (simp add: tr)
qed

text \<open>
  An area with an item that is no ring, an outer ring, an inner ring and a second,
  empty outer ring: two polygons, the first with one hole.
\<close>

theorem C9_multipolygon_protocol_witness:
  "follows_protocol (snd (create_multipolygon recorder IdentityProjection
      \<lparr>area_id = 7,
       area_items = [other_item,
                     outer_ring [\<lparr>nr_ref = 1, nr_location = \<lparr>lon = 1, lat = 2\<rparr>\<rparr>],
                     inner_ring [\<lparr>nr_ref = 2, nr_location = \<lparr>lon = 3, lat = 4\<rparr>\<rparr>],
                     outer_ring []]\<rparr> []))
   \<and> snd (create_multipolygon recorder IdentityProjection
      \<lparr>area_id = 7,
       area_items = [other_item,
                     outer_ring [\<lparr>nr_ref = 1, nr_location = \<lparr>lon = 1, lat = 2\<rparr>\<rparr>],
                     inner_ring [\<lparr>nr_ref = 2, nr_location = \<lparr>lon = 3, lat = 4\<rparr>\<rparr>],
                     outer_ring []]\<rparr> [])
     = [Multipolygon_start,
        Multipolygon_polygon_start,
        Multipolygon_outer_ring_start,
        Multipolygon_add_location \<lparr>coord_x = 1, coord_y = 2\<rparr>,
        Multipolygon_outer_ring_finish,
        Multipolygon_inner_ring_start,
        Multipolygon_add_location \<lparr>coord_x = 3, coord_y = 4\<rparr>,
        Multipolygon_inner_ring_finish,
        Multipolygon_polygon_finish,
        Multipolygon_polygon_start,
        Multipolygon_outer_ring_start,
        Multipolygon_outer_ring_finish,
        Multipolygon_polygon_finish,
        Multipolygon_finish]"
proof -
  let ?a = "\<lparr>area_id = 7,
       area_items = [other_item,
                     outer_ring [\<lparr>nr_ref = 1, nr_location = \<lparr>lon = 1, lat = 2\<rparr>\<rparr>],
                     inner_ring [\<lparr>nr_ref = 2, nr_location = \<lparr>lon = 3, lat = 4\<rparr>\<rparr>],
                     outer_ring []]\<rparr>"
  have rings: "0 < ring_count (area_items ?a)" by simp
  have preceded: "inner_rings_preceded False (area_items ?a)" by simp
  have tr: "snd (create_multipolygon recorder IdentityProjection ?a [])
     = [Multipolygon_start,
        Multipolygon_polygon_start,
        Multipolygon_outer_ring_start,
        Multipolygon_add_location \<lparr>coord_x = 1, coord_y = 2\<rparr>,
        Multipolygon_outer_ring_finish,
        Multipolygon_inner_ring_start,
        Multipolygon_add_location \<lparr>coord_x = 3, coord_y = 4\<rparr>,
        Multipolygon_inner_ring_finish,
        Multipolygon_polygon_finish,
        Multipolygon_polygon_start,
        Multipolygon_outer_ring_start,
        Multipolygon_outer_ring_finish,
        Multipolygon_polygon_finish,
        Multipolygon_finish]"
    by (simp add: create_multipolygon_def create_multipolygon_try_def add_points_def
          IdentityProjection_def undefined_location_def)
  from C9_multipolygon_protocol [OF identity_total rings preceded] tr
  show ?thesis by simp
qed

text \<open>
  C10. For every Location, IdentityProjection returns the Coordinates whose x and y are the
  Location's lon and lat, and its EPSG code is 4326.
\<close>

theorem C10_identity_projection:
  "project IdentityProjection l = Inr \<lparr>coord_x = lon l, coord_y = lat l\<rparr>
   \<and> epsg IdentityProjection = 4326"
  by (simp add: IdentityProjection_def)

end
